theory Spec2Isabelle
  imports Main "HOL-Library.Word" "HOL-Library.Signed_Division" "HOL-Library.Monad_Syntax"
begin

section \<open>HLK-LD2450 presence sensor driver (xsns_124_ld2450.ino)\<close>

subsection \<open>Constants\<close>

definition LD2450_START_DELAY :: nat where
  "LD2450_START_DELAY = 10"

definition LD2450_DEFAULT_TIMEOUT :: "8 word" where
  "LD2450_DEFAULT_TIMEOUT = 5"

definition LD2450_DIST_MAX :: int where
  "LD2450_DIST_MAX = 6000"

definition LD2450_TARGET_MAX :: nat where
  "LD2450_TARGET_MAX = 3"

definition LD2450_MSG_SIZE_MAX :: nat where
  "LD2450_MSG_SIZE_MAX = 32"

subsection \<open>Data\<close>

text \<open>
  The driver keeps four global structures. Each one is a record here; the field names
  carry a short prefix because a record field is a global constant in HOL
  (\<open>ld2450_received.timestamp\<close> is \<open>rcv_timestamp\<close>, \<open>ld2450_config.x1\<close> is
  \<open>cfg_x1\<close>, \<open>ld2450_status.timestamp\<close> is \<open>sts_timestamp\<close>,
  \<open>ld2450_target[i].x\<close> is \<open>tgt_x\<close>, and so on).
  \<open>uint8_t\<close> is \<open>8 word\<close>, \<open>int16_t\<close> and \<open>uint16_t\<close> are \<open>16 word\<close> (read with
  \<open>sint\<close> and \<open>unat\<close>), \<open>uint32_t\<close> is \<open>32 word\<close>.
\<close>

record received_t =
  rcv_timestamp :: "32 word"
  rcv_idx_body :: "8 word"
  rcv_arr_body :: "8 word list"
  rcv_arr_last :: "8 word list"

record config_t =
  cfg_timeout :: "8 word"
  cfg_x1 :: "16 word"
  cfg_x2 :: "16 word"
  cfg_y1 :: "16 word"
  cfg_y2 :: "16 word"

record status_t =
  sts_pserial :: bool
  sts_enabled :: bool
  sts_counter :: "8 word"
  sts_timestamp :: "32 word"

record target_t =
  tgt_x :: "16 word"
  tgt_y :: "16 word"
  tgt_speed :: "16 word"
  tgt_dist :: "16 word"
  tgt_zone :: bool

text \<open>
  The whole driver state: the four structures, the settings bytes
  \<open>Settings->free_ea6[...]\<close> (an array whose declaration is outside the driver, so it is a
  function from the index), and the lines written with \<open>AddLog\<close> by \<open>LD2450LogMessage\<close>.
  \<open>sts_pserial\<close> says that the serial port pointer \<open>pserial\<close> is not null.
\<close>

record ld2450_state =
  free_ea6 :: "nat \<Rightarrow> 8 word"
  ld2450_received :: received_t
  ld2450_config :: config_t
  ld2450_status :: status_t
  ld2450_target :: "target_t list"
  log_lines :: "string list"

subsection \<open>Config\<close>

text \<open>
  \<open>LD2450LoadConfig\<close>: the five settings bytes are read, the zone bytes as
  \<open>((int16_t)byte - 128) * 100\<close> computed in \<open>int\<close> and stored in an \<open>int16_t\<close>; then the
  seven checks run in the order of the source. Each check assigns one field, so each line
  binds that field again.
\<close>

definition LD2450LoadConfig :: "ld2450_state \<Rightarrow> ld2450_state" where
  "LD2450LoadConfig s =
    (let timeout = free_ea6 s 25;
         x1 = (word_of_int ((uint (free_ea6 s 26) - 128) * 100) :: 16 word);
         x2 = (word_of_int ((uint (free_ea6 s 27) - 128) * 100) :: 16 word);
         y1 = (word_of_int ((uint (free_ea6 s 28) - 128) * 100) :: 16 word);
         y2 = (word_of_int ((uint (free_ea6 s 29) - 128) * 100) :: 16 word);
         timeout = (if timeout = 0 then LD2450_DEFAULT_TIMEOUT else timeout);
         x1 = (if sint x1 < - LD2450_DIST_MAX then word_of_int (- LD2450_DIST_MAX) else x1);
         x2 = (if sint x2 > LD2450_DIST_MAX then word_of_int LD2450_DIST_MAX else x2);
         y1 = (if sint y1 < 0 then 0 else y1);
         y2 = (if sint y2 > LD2450_DIST_MAX then word_of_int LD2450_DIST_MAX else y2);
         x2 = (if sint x2 \<le> sint x1 then word_of_int LD2450_DIST_MAX else x2);
         y2 = (if sint y2 \<le> sint y1 then word_of_int LD2450_DIST_MAX else y2)
     in s\<lparr>ld2450_config :=
            \<lparr> cfg_timeout = timeout, cfg_x1 = x1, cfg_x2 = x2, cfg_y1 = y1, cfg_y2 = y2 \<rparr>\<rparr>)"

text \<open>
  \<open>LD2450SaveConfig\<close>: \<open>(uint8_t)((v / 100) + 128)\<close>, with C's division (it truncates
  towards zero, \<open>sdiv\<close>) on the value promoted to \<open>int\<close>, and the cast keeping the low byte.
\<close>

definition LD2450SaveConfig :: "ld2450_state \<Rightarrow> ld2450_state" where
  "LD2450SaveConfig s =
    (let c = ld2450_config s
     in s\<lparr>free_ea6 := (free_ea6 s)
             (25 := cfg_timeout c,
              26 := word_of_int ((sint (cfg_x1 c) sdiv 100) + 128),
              27 := word_of_int ((sint (cfg_x2 c) sdiv 100) + 128),
              28 := word_of_int ((sint (cfg_y1 c) sdiv 100) + 128),
              29 := word_of_int ((sint (cfg_y2 c) sdiv 100) + 128))\<rparr>)"

subsection \<open>Commands\<close>

text \<open>
  \<open>CmndLD2450Timeout\<close>; \<open>payload\<close> is \<open>XdrvMailbox.payload\<close>, a signed 32-bit number. The
  assignment to the \<open>uint8_t\<close> field keeps its low byte. The configuration is saved; it
  is not loaded again.
\<close>

definition CmndLD2450Timeout :: "32 word \<Rightarrow> ld2450_state \<Rightarrow> ld2450_state" where
  "CmndLD2450Timeout payload s =
     (if sint payload > 0
      then LD2450SaveConfig (s\<lparr>ld2450_config := (ld2450_config s)\<lparr>cfg_timeout := ucast payload\<rparr>\<rparr>)
      else s)"

text \<open>\<open>CmndLD2450Reset\<close>: the default zone is set and saved; it is not loaded again.\<close>

definition CmndLD2450Reset :: "ld2450_state \<Rightarrow> ld2450_state" where
  "CmndLD2450Reset s =
     LD2450SaveConfig (s\<lparr>ld2450_config := (ld2450_config s)
        \<lparr> cfg_x1 := word_of_int (- LD2450_DIST_MAX),
          cfg_x2 := word_of_int LD2450_DIST_MAX,
          cfg_y1 := 0,
          cfg_y2 := word_of_int LD2450_DIST_MAX \<rparr>\<rparr>)"

text \<open>
  \<open>CmndLD2450Dist\<close> and \<open>CmndLD2450Zone\<close> cut \<open>XdrvMailbox.data\<close> at the commas with
  \<open>strtok\<close> and convert every token with \<open>atoi\<close>. Both are C library functions; the
  commands take their result: \<open>None\<close> when the copied text is empty, otherwise the
  \<open>int\<close> values of the tokens in order. \<open>count\<close> is a \<open>uint8_t\<close>, and a value is stored
  into an \<open>int16_t\<close> field by keeping its low 16 bits.
\<close>

primrec dist_tokens :: "8 word \<Rightarrow> 32 word list \<Rightarrow> config_t \<Rightarrow> config_t" where
  "dist_tokens count [] c = c"
| "dist_tokens count (v # rest) c =
     dist_tokens (count + 1) rest
       (if count = 0 then c\<lparr>cfg_y1 := ucast v\<rparr>
        else if count = 1 then c\<lparr>cfg_y2 := ucast v\<rparr>
        else c)"

definition CmndLD2450Dist :: "32 word list option \<Rightarrow> ld2450_state \<Rightarrow> ld2450_state" where
  "CmndLD2450Dist data s =
     (case data of
        None \<Rightarrow> s
      | Some tokens \<Rightarrow>
          (let c = dist_tokens 0 tokens (ld2450_config s);
               c = c\<lparr>cfg_x1 := word_of_int (- LD2450_DIST_MAX), cfg_x2 := word_of_int LD2450_DIST_MAX\<rparr>
           in LD2450LoadConfig (LD2450SaveConfig (s\<lparr>ld2450_config := c\<rparr>))))"

primrec zone_tokens :: "8 word \<Rightarrow> 32 word list \<Rightarrow> config_t \<Rightarrow> config_t" where
  "zone_tokens count [] c = c"
| "zone_tokens count (v # rest) c =
     zone_tokens (count + 1) rest
       (if count = 0 then c\<lparr>cfg_x1 := ucast v\<rparr>
        else if count = 1 then c\<lparr>cfg_x2 := ucast v\<rparr>
        else if count = 2 then c\<lparr>cfg_y1 := ucast v\<rparr>
        else if count = 3 then c\<lparr>cfg_y2 := ucast v\<rparr>
        else c)"

definition CmndLD2450Zone :: "32 word list option \<Rightarrow> ld2450_state \<Rightarrow> ld2450_state" where
  "CmndLD2450Zone data s =
     (case data of
        None \<Rightarrow> s
      | Some tokens \<Rightarrow>
          LD2450LoadConfig (LD2450SaveConfig (s\<lparr>ld2450_config := zone_tokens 0 tokens (ld2450_config s)\<rparr>)))"

subsection \<open>Arrays and memory\<close>

text \<open>
  A C array is a list of its size. An access outside the array is undefined behaviour in
  C; here it is the value \<open>None\<close>, so that a run of the model that returns \<open>Some\<close> has
  made no access out of bounds.
\<close>

definition arr_read :: "'a list \<Rightarrow> nat \<Rightarrow> 'a option" where
  "arr_read xs i = (if i < length xs then Some (xs ! i) else None)"

definition arr_write :: "nat \<Rightarrow> 'a \<Rightarrow> 'a list \<Rightarrow> 'a list option" where
  "arr_write i v xs = (if i < length xs then Some (xs[i := v]) else None)"

text \<open>\<open>memcpy (dst, src, n)\<close> on two arrays: the first \<open>n\<close> cells of \<open>dst\<close> are replaced.\<close>

definition memcpy :: "'a list \<Rightarrow> 'a list \<Rightarrow> nat \<Rightarrow> 'a list option" where
  "memcpy dst src n =
     (if n \<le> length dst \<and> n \<le> length src then Some (take n src @ drop n dst) else None)"

text \<open>
  The driver reads 16-bit and 32-bit values through pointer casts into the byte arrays
  (\<open>*(int16_t*)(arr_body + start)\<close>, \<open>*(uint32_t*)&arr_last\<close>). The ESP8266 and ESP32 are
  little-endian: the byte at the lowest address is the least significant one.
\<close>

definition read_16 :: "8 word list \<Rightarrow> nat \<Rightarrow> 16 word option" where
  "read_16 buf i =
     do { b0 \<leftarrow> arr_read buf i;
          b1 \<leftarrow> arr_read buf (i + 1);
          Some (word_of_nat (unat b0 + 256 * unat b1)) }"

definition read_32 :: "8 word list \<Rightarrow> nat \<Rightarrow> 32 word option" where
  "read_32 buf i =
     do { b0 \<leftarrow> arr_read buf i;
          b1 \<leftarrow> arr_read buf (i + 1);
          b2 \<leftarrow> arr_read buf (i + 2);
          b3 \<leftarrow> arr_read buf (i + 3);
          Some (word_of_nat (unat b0 + 256 * (unat b1 + 256 * (unat b2 + 256 * unat b3)))) }"

subsection \<open>Functions\<close>

text \<open>
  \<open>LD2450GetDetectionStatus (delay)\<close>; \<open>now\<close> is the value of \<open>LocalTime ()\<close>. All three
  quantities are \<open>uint32_t\<close>: the sum wraps around at \<open>2 ^ 32\<close> and the comparison is
  unsigned. \<open>UINT32_MAX\<close> is the word \<open>- 1\<close>.
\<close>

definition LD2450GetDetectionStatus :: "32 word \<Rightarrow> 32 word \<Rightarrow> ld2450_state \<Rightarrow> bool" where
  "LD2450GetDetectionStatus delay now s =
     (if sts_timestamp (ld2450_status s) = 0 then False
      else
        (let timeout = (if delay = 0 \<or> delay = - 1
                        then ucast (cfg_timeout (ld2450_config s)) else delay)
         in sts_timestamp (ld2450_status s) + timeout > now))"

text \<open>
  \<open>LD2450LogMessage\<close>: the text \<open>recv\<close> followed by \<open>sprintf (" %02X", arr_body[index])\<close> for
  every index below \<open>idx_body\<close>, written with \<open>AddLog\<close> after the prefix \<open>HLK: \<close>.
\<close>

definition hex_digit :: "nat \<Rightarrow> char" where
  "hex_digit n = ''0123456789ABCDEF'' ! n"

definition hex_byte :: "8 word \<Rightarrow> string" where
  "hex_byte b = [CHR '' '', hex_digit (unat b div 16), hex_digit (unat b mod 16)]"

primrec log_body :: "8 word list \<Rightarrow> nat list \<Rightarrow> string option" where
  "log_body body [] = Some []"
| "log_body body (index # rest) =
     (case arr_read body index of
        None \<Rightarrow> None
      | Some b \<Rightarrow> (case log_body body rest of None \<Rightarrow> None | Some t \<Rightarrow> Some (hex_byte b @ t)))"

definition LD2450LogMessage :: "ld2450_state \<Rightarrow> ld2450_state option" where
  "LD2450LogMessage s =
     (case log_body (rcv_arr_body (ld2450_received s))
             [0 ..< unat (rcv_idx_body (ld2450_received s))] of
        None \<Rightarrow> None
      | Some t \<Rightarrow> Some (s\<lparr>log_lines := log_lines s @ [''HLK: recv'' @ t]\<rparr>))"

subsection \<open>Callback: handling of received data\<close>

text \<open>
  \<open>(uint16_t)sqrt (pow (x, 2) + pow (y, 2))\<close>: the two squares and their sum are integers
  below \<open>2 ^ 31\<close>, exact as doubles, and the conversion to \<open>uint16_t\<close> drops the fraction
  of the root. The integer part of the root is computed here on \<open>int\<close>.
\<close>

function sqrt_trunc :: "int \<Rightarrow> int" where
  "sqrt_trunc n =
     (if n < 4 then (if n \<le> 0 then 0 else 1)
      else (let r = 2 * sqrt_trunc (n div 4)
            in if (r + 1) * (r + 1) \<le> n then r + 1 else r))"
  by pat_completeness auto
termination
  by (relation "measure nat") auto

declare sqrt_trunc.simps [simp del]

text \<open>
  The statement repeated for x, y and speed:
  \<open>if (v < 0) v = 0 - v - 32768;\<close> on an \<open>int16_t\<close>. The right-hand side is computed in
  \<open>int\<close> and stored back into the \<open>int16_t\<close>.
\<close>

definition sign_fix :: "16 word \<Rightarrow> 16 word" where
  "sign_fix v = (if sint v < 0 then word_of_int (0 - sint v - 32768) else v)"

text \<open>
  The body of the loop over the targets, for one \<open>index\<close>: the three fields are read at
  \<open>start\<close>, \<open>start + 2\<close> and \<open>start + 4\<close> with \<open>start = 4 + index * 8\<close>, the distance and
  the zone flag are computed, and the counter is incremented when the flag is set.
\<close>

definition LD2450Target :: "nat \<Rightarrow> ld2450_state \<Rightarrow> ld2450_state option" where
  "LD2450Target index s =
     do { let body = rcv_arr_body (ld2450_received s);
          let cfg = ld2450_config s;
          let start = 4 + index * 8;
          raw_x \<leftarrow> read_16 body start;
          let x = sign_fix raw_x;
          raw_y \<leftarrow> read_16 body (start + 2);
          let y = sign_fix raw_y;
          let y = word_of_int (0 - sint y);
          raw_speed \<leftarrow> read_16 body (start + 4);
          let speed = sign_fix raw_speed;
          let dist = (word_of_int (sqrt_trunc (sint x * sint x + sint y * sint y)) :: 16 word);
          let zone = (unat dist > 0);
          let zone = (zone \<and> (sint x \<ge> sint (cfg_x1 cfg) \<and> sint x \<le> sint (cfg_x2 cfg)));
          let zone = (zone \<and> (sint y \<ge> sint (cfg_y1 cfg) \<and> sint y \<le> sint (cfg_y2 cfg)));
          targets \<leftarrow> arr_write index
             \<lparr> tgt_x = x, tgt_y = y, tgt_speed = speed, tgt_dist = dist, tgt_zone = zone \<rparr>
             (ld2450_target s);
          let sts = ld2450_status s;
          let sts = (if zone then sts\<lparr>sts_counter := sts_counter sts + 1\<rparr> else sts);
          Some (s\<lparr>ld2450_target := targets, ld2450_status := sts\<rparr>) }"

text \<open>\<open>for (index = 0; index < LD2450_TARGET_MAX; index ++)\<close>, started at \<open>index\<close>.\<close>

function LD2450TargetLoop :: "nat \<Rightarrow> ld2450_state \<Rightarrow> ld2450_state option" where
  "LD2450TargetLoop index s =
     (if index < LD2450_TARGET_MAX
      then (case LD2450Target index s of
              None \<Rightarrow> None
            | Some s' \<Rightarrow> LD2450TargetLoop (index + 1) s')
      else Some s)"
  by pat_completeness auto
termination
  by (relation "measure (\<lambda>(index, s). LD2450_TARGET_MAX - index)") auto

declare LD2450TargetLoop.simps [simp del]

text \<open>
  The branch taken when a data message is complete: the counter is reset, the message is
  logged, the three targets are decoded, the detection timestamp is set to \<open>LocalTime ()\<close>
  (here \<open>now\<close>) if a target is in the zone, and the reception index is reset.
\<close>

definition LD2450DataMessage :: "32 word \<Rightarrow> ld2450_state \<Rightarrow> ld2450_state option" where
  "LD2450DataMessage now s =
     do { let s = s\<lparr>ld2450_status := (ld2450_status s)\<lparr>sts_counter := 0\<rparr>\<rparr>;
          s \<leftarrow> LD2450LogMessage s;
          s \<leftarrow> LD2450TargetLoop 0 s;
          let s = (if unat (sts_counter (ld2450_status s)) > 0
                   then s\<lparr>ld2450_status := (ld2450_status s)\<lparr>sts_timestamp := now\<rparr>\<rparr>
                   else s);
          Some (s\<lparr>ld2450_received := (ld2450_received s)\<lparr>rcv_idx_body := 0\<rparr>\<rparr>) }"

text \<open>
  What one turn of the receive loop reads from outside the driver state: the byte returned
  by \<open>pserial->read ()\<close>, \<open>TasmotaGlobal.uptime\<close>, \<open>millis ()\<close> and \<open>LocalTime ()\<close>.
\<close>

record rx_t =
  recv_data :: "8 word"
  uptime :: "32 word"
  millis :: "32 word"
  LocalTime :: "32 word"

text \<open>The statements that append the byte to the message body and to the last four bytes.\<close>

definition LD2450Append :: "rx_t \<Rightarrow> received_t \<Rightarrow> received_t option" where
  "LD2450Append rx r =
     do { r \<leftarrow> (if unat (rcv_idx_body r) < LD2450_MSG_SIZE_MAX
                then do { body \<leftarrow> arr_write (unat (rcv_idx_body r)) (recv_data rx) (rcv_arr_body r);
                          Some (r\<lparr>rcv_arr_body := body, rcv_idx_body := rcv_idx_body r + 1\<rparr>) }
                else Some r);
          l \<leftarrow> Some (rcv_arr_last r);
          v \<leftarrow> arr_read l 1; l \<leftarrow> arr_write 0 v l;
          v \<leftarrow> arr_read l 2; l \<leftarrow> arr_write 1 v l;
          v \<leftarrow> arr_read l 3; l \<leftarrow> arr_write 2 v l;
          l \<leftarrow> arr_write 3 (recv_data rx) l;
          Some (r\<lparr>rcv_arr_last := l, rcv_timestamp := millis rx\<rparr>) }"

text \<open>The body of the receive loop, for one received byte.\<close>

definition LD2450ReceiveByte :: "rx_t \<Rightarrow> ld2450_state \<Rightarrow> ld2450_state option" where
  "LD2450ReceiveByte rx s =
     (if unat (uptime rx) > LD2450_START_DELAY
      then do { r \<leftarrow> LD2450Append rx (ld2450_received s);
                let s = s\<lparr>ld2450_received := r\<rparr>;
                pheader \<leftarrow> read_32 (rcv_arr_last r) 0;
                if pheader = 0x0003ffaa
                then do { body \<leftarrow> memcpy (rcv_arr_body r) (rcv_arr_last r) 4;
                          Some (s\<lparr>ld2450_received := r\<lparr>rcv_arr_body := body, rcv_idx_body := 4\<rparr>\<rparr>) }
                else if rcv_idx_body r = 30
                then do { pfooter \<leftarrow> read_16 (rcv_arr_last r) 2;
                          if pfooter = 0xcc55
                          then LD2450DataMessage (LocalTime rx) s
                          else Some s }
                else Some s }
      else Some s)"

text \<open>
  \<open>LD2450ReceiveData\<close>: nothing is done without a serial port; otherwise the loop runs
  once for every byte that is available.
\<close>

primrec LD2450ReceiveLoop :: "rx_t list \<Rightarrow> ld2450_state \<Rightarrow> ld2450_state option" where
  "LD2450ReceiveLoop [] s = Some s"
| "LD2450ReceiveLoop (rx # rest) s =
     (case LD2450ReceiveByte rx s of
        None \<Rightarrow> None
      | Some s' \<Rightarrow> LD2450ReceiveLoop rest s')"

definition LD2450ReceiveData :: "rx_t list \<Rightarrow> ld2450_state \<Rightarrow> ld2450_state option" where
  "LD2450ReceiveData rxs s =
     (if \<not> sts_pserial (ld2450_status s) then Some s else LD2450ReceiveLoop rxs s)"

subsection \<open>Initial state\<close>

text \<open>
  The values of the global structures when the program starts (their initialisers; static
  storage without one is zero), for a given content of the settings array, and
  \<open>LD2450Init\<close>, which clears the targets and loads the configuration.
\<close>

definition target_zero :: target_t where
  "target_zero = \<lparr> tgt_x = 0, tgt_y = 0, tgt_speed = 0, tgt_dist = 0, tgt_zone = False \<rparr>"

definition ld2450_boot :: "(nat \<Rightarrow> 8 word) \<Rightarrow> ld2450_state" where
  "ld2450_boot settings =
     \<lparr> free_ea6 = settings,
       ld2450_received = \<lparr> rcv_timestamp = - 1, rcv_idx_body = 0,
                           rcv_arr_body = replicate LD2450_MSG_SIZE_MAX 0,
                           rcv_arr_last = [0, 0, 0, 0] \<rparr>,
       ld2450_config = \<lparr> cfg_timeout = LD2450_DEFAULT_TIMEOUT,
                         cfg_x1 = word_of_int (- LD2450_DIST_MAX),
                         cfg_x2 = word_of_int LD2450_DIST_MAX,
                         cfg_y1 = 0,
                         cfg_y2 = word_of_int LD2450_DIST_MAX \<rparr>,
       ld2450_status = \<lparr> sts_pserial = False, sts_enabled = False,
                         sts_counter = 0, sts_timestamp = 0 \<rparr>,
       ld2450_target = replicate LD2450_TARGET_MAX target_zero,
       log_lines = [] \<rparr>"

definition LD2450Init :: "ld2450_state \<Rightarrow> ld2450_state" where
  "LD2450Init s = LD2450LoadConfig (s\<lparr>ld2450_target := map (\<lambda>t. target_zero) (ld2450_target s)\<rparr>)"

section \<open>Vocabulary of the specification\<close>

text \<open>
  The arrays have their declared sizes: 32 bytes of message body, 4 last bytes and 3
  targets.
\<close>

definition ld2450_wf :: "ld2450_state \<Rightarrow> bool" where
  "ld2450_wf s \<longleftrightarrow>
     length (rcv_arr_body (ld2450_received s)) = LD2450_MSG_SIZE_MAX \<and>
     length (rcv_arr_last (ld2450_received s)) = 4 \<and>
     length (ld2450_target s) = LD2450_TARGET_MAX"

text \<open>
  The 16-bit little-endian value at offset \<open>i\<close> of a frame, read as a signed number, and
  the recovery rule of the specification: a negative raw value \<open>raw\<close> stands for
  \<open>- raw - 32768\<close>, any other raw value for itself.
\<close>

definition le16_signed :: "8 word list \<Rightarrow> nat \<Rightarrow> int" where
  "le16_signed buf i =
     (let u = uint (buf ! i) + 256 * uint (buf ! (i + 1))
      in if u < 32768 then u else u - 65536)"

definition recovered :: "int \<Rightarrow> int" where
  "recovered raw = (if raw < 0 then - raw - 32768 else raw)"

text \<open>
  Zone membership as the specification states it: a distance above 0 and both coordinates
  inside the closed intervals of the configuration.
\<close>

definition in_zone :: "config_t \<Rightarrow> target_t \<Rightarrow> bool" where
  "in_zone cfg t \<longleftrightarrow>
     unat (tgt_dist t) > 0 \<and>
     (sint (cfg_x1 cfg) \<le> sint (tgt_x t) \<and> sint (tgt_x t) \<le> sint (cfg_x2 cfg)) \<and>
     (sint (cfg_y1 cfg) \<le> sint (tgt_y t) \<and> sint (tgt_y t) \<le> sint (cfg_y2 cfg))"

text \<open>What the specification says of target slot \<open>index\<close> after a frame \<open>body\<close> is decoded.\<close>

definition slot_decoded :: "config_t \<Rightarrow> 8 word list \<Rightarrow> nat \<Rightarrow> target_t \<Rightarrow> bool" where
  "slot_decoded cfg body index t \<longleftrightarrow>
     sint (tgt_x t) = recovered (le16_signed body (4 + index * 8)) \<and>
     sint (tgt_y t) = - recovered (le16_signed body (4 + index * 8 + 2)) \<and>
     sint (tgt_speed t) = recovered (le16_signed body (4 + index * 8 + 4)) \<and>
     tgt_dist t = word_of_int (sqrt_trunc (sint (tgt_x t) * sint (tgt_x t) +
                                            sint (tgt_y t) * sint (tgt_y t))) \<and>
     tgt_zone t = in_zone cfg t"

text \<open>The header and footer of a frame, in transmission order.\<close>

definition header_magic :: "8 word list" where
  "header_magic = [0xAA, 0xFF, 0x03, 0x00]"

definition footer_magic :: "8 word list" where
  "footer_magic = [0x55, 0xCC]"

text \<open>
  The timeout a presence query works with: a requested timeout of 0 or \<open>UINT32_MAX\<close>
  stands for the configured one.
\<close>

definition requested_timeout :: "32 word \<Rightarrow> ld2450_state \<Rightarrow> 32 word" where
  "requested_timeout delay s =
     (if delay = 0 \<or> delay = - 1 then ucast (cfg_timeout (ld2450_config s)) else delay)"

text \<open>
  A received byte completes a frame when, once it is appended, the message body holds 30
  bytes and the last two received bytes are the footer.
\<close>

definition completes_frame :: "rx_t \<Rightarrow> ld2450_state \<Rightarrow> bool" where
  "completes_frame rx s \<longleftrightarrow>
     unat (uptime rx) > LD2450_START_DELAY \<and>
     (case LD2450Append rx (ld2450_received s) of
        None \<Rightarrow> False
      | Some r \<Rightarrow> rcv_idx_body r = 30 \<and> drop 2 (rcv_arr_last r) = footer_magic)"

text \<open>
  No header is seen while the bytes \<open>rxs\<close> are received, starting with the last four bytes
  \<open>l\<close>: a byte received after the startup delay is pushed into the window, and the window
  never equals the header.
\<close>

primrec headerless :: "8 word list \<Rightarrow> rx_t list \<Rightarrow> bool" where
  "headerless l [] = True"
| "headerless l (rx # rest) =
     (if unat (uptime rx) > LD2450_START_DELAY
      then tl l @ [recv_data rx] \<noteq> header_magic \<and> headerless (tl l @ [recv_data rx]) rest
      else headerless l rest)"

section \<open>Example states\<close>

text \<open>
  A frame whose first target has the raw fields x = 0x0032, y = 0x801E and speed = 0x0010
  and whose two other slots are empty; the driver with an open serial port and the default
  zone; and that driver at the moment the last byte of the frame has been appended.
\<close>

definition example_frame :: "8 word list" where
  "example_frame =
     [0xAA, 0xFF, 0x03, 0x00,
      0x32, 0x00, 0x1E, 0x80, 0x10, 0x00, 0x00, 0x00,
      0x00, 0x00, 0x00, 0x00, 0x00, 0x00, 0x00, 0x00,
      0x00, 0x00, 0x00, 0x00, 0x00, 0x00, 0x00, 0x00,
      0x55, 0xCC]"

definition example_idle :: ld2450_state where
  "example_idle =
     (ld2450_boot (\<lambda>i. 0))
       \<lparr> ld2450_status := \<lparr> sts_pserial = True, sts_enabled = True,
                            sts_counter = 0, sts_timestamp = 0 \<rparr> \<rparr>"

definition example_state :: ld2450_state where
  "example_state =
     example_idle
       \<lparr> ld2450_received := \<lparr> rcv_timestamp = 0, rcv_idx_body = 30,
                              rcv_arr_body = example_frame @ [0, 0],
                              rcv_arr_last = [0x00, 0x00, 0x55, 0xCC] \<rparr> \<rparr>"

text \<open>
  Settings bytes whose x1 byte is 255, which stands for 12700 mm, and the driver with a
  given detection timestamp.
\<close>

definition example_settings :: "nat \<Rightarrow> 8 word" where
  "example_settings = (\<lambda>i. 0)(25 := 5, 26 := 255, 27 := 128, 28 := 128, 29 := 128)"

definition example_seen :: "32 word \<Rightarrow> ld2450_state" where
  "example_seen t =
     example_idle\<lparr>ld2450_status := (ld2450_status example_idle)\<lparr>sts_timestamp := t\<rparr>\<rparr>"

text \<open>
  A byte received after and during the startup delay, the driver one byte before the
  example frame is complete, and the driver with a full message body.
\<close>

definition example_rx :: "8 word \<Rightarrow> rx_t" where
  "example_rx b = \<lparr> recv_data = b, uptime = 11, millis = 0, LocalTime = 1000 \<rparr>"

definition example_early :: "8 word \<Rightarrow> rx_t" where
  "example_early b = \<lparr> recv_data = b, uptime = 5, millis = 0, LocalTime = 1000 \<rparr>"

definition example_before :: ld2450_state where
  "example_before =
     example_idle
       \<lparr> ld2450_received := \<lparr> rcv_timestamp = 0, rcv_idx_body = 29,
                              rcv_arr_body = butlast example_frame @ [0, 0, 0],
                              rcv_arr_last = [0x00, 0x00, 0x00, 0x55] \<rparr> \<rparr>"

definition example_full :: ld2450_state where
  "example_full =
     example_state\<lparr>ld2450_received := (ld2450_received example_state)\<lparr>rcv_idx_body := 32\<rparr>\<rparr>"

text \<open>
  A frame whose first target has the raw fields x = 0x319C (12700) and y = 0, complete in a
  driver that has loaded \<open>example_settings\<close> (the zone with \<open>x1 = 12700\<close> and \<open>x2 = 6000\<close>);
  and a frame whose first target has the raw fields x = 0x1770 (6000) and y = 0x9770 (which
  stands for 6000) and whose second target has x = 0x9771 (which stands for -6001) and
  y = 0x8064 (which stands for 100), complete in the driver with the default zone.
\<close>

definition example_corner_frame :: "8 word list" where
  "example_corner_frame =
     [0xAA, 0xFF, 0x03, 0x00,
      0x9C, 0x31, 0x00, 0x00, 0x00, 0x00, 0x00, 0x00,
      0x00, 0x00, 0x00, 0x00, 0x00, 0x00, 0x00, 0x00,
      0x00, 0x00, 0x00, 0x00, 0x00, 0x00, 0x00, 0x00,
      0x55, 0xCC]"

definition example_inverted :: ld2450_state where
  "example_inverted =
     LD2450LoadConfig
       (example_idle
          \<lparr> free_ea6 := example_settings,
            ld2450_received := \<lparr> rcv_timestamp = 0, rcv_idx_body = 30,
                                   rcv_arr_body = example_corner_frame @ [0, 0],
                                   rcv_arr_last = [0x00, 0x00, 0x55, 0xCC] \<rparr> \<rparr>)"

definition example_far_frame :: "8 word list" where
  "example_far_frame =
     [0xAA, 0xFF, 0x03, 0x00,
      0x70, 0x17, 0x70, 0x97, 0x00, 0x00, 0x00, 0x00,
      0x71, 0x97, 0x64, 0x80, 0x00, 0x00, 0x00, 0x00,
      0x00, 0x00, 0x00, 0x00, 0x00, 0x00, 0x00, 0x00,
      0x55, 0xCC]"

definition example_far :: ld2450_state where
  "example_far =
     example_idle
       \<lparr> ld2450_received := \<lparr> rcv_timestamp = 0, rcv_idx_body = 30,
                              rcv_arr_body = example_far_frame @ [0, 0],
                              rcv_arr_last = [0x00, 0x00, 0x55, 0xCC] \<rparr> \<rparr>"

section \<open>Properties\<close>

subsection \<open>Words, bytes and arrays\<close>

lemma signed_take_bit_15:
  fixes k :: int
  assumes "0 \<le> k" "k < 65536"
  shows "signed_take_bit 15 k = (if k < 32768 then k else k - 65536)"
proof (cases "k < 32768")
  case True
  with assms show ?thesis by (simp add: signed_take_bit_int_eq_self)
next
  case False
  with assms have "(k + 32768) mod 65536 = k + 32768 - 65536"
    by (simp add: mod_pos_pos_trivial flip: minus_mod_self2 [of "k + 32768" 65536])
  with False show ?thesis
    by (simp add: signed_take_bit_eq_take_bit_shift take_bit_eq_mod)
qed

lemma sint_16_uint: "sint (w :: 16 word) = (if uint w < 32768 then uint w else uint w - 65536)"
proof -
  have "uint w < 65536" using uint_bounded [of w] by simp
  then show ?thesis by (simp add: sint_uint signed_take_bit_15)
qed

lemma sint_16_of_int: "- 32768 \<le> k \<Longrightarrow> k < 32768 \<Longrightarrow> sint (word_of_int k :: 16 word) = k"
  by (simp add: sint_sbintrunc' signed_take_bit_int_eq_self)

lemma sint_16_bounds: "- 32768 \<le> sint (w :: 16 word) \<and> sint w < 32768"
  using sint_ge [of w] sint_lt [of w] by simp

lemma unat_8_bound: "unat (b :: 8 word) < 256"
  using unsigned_less [of b, where 'a = nat] by simp

lemma uint_8_bound: "uint (b :: 8 word) < 256"
  using uint_bounded [of b] by simp

lemma read_16_signed:
  assumes "i + 1 < length buf"
  shows "\<exists>w. read_16 buf i = Some w \<and> sint w = le16_signed buf i"
proof -
  let ?n = "unat (buf ! i) + 256 * unat (buf ! (i + 1))"
  have n: "?n < 65536"
    using unat_8_bound [of "buf ! i"] unat_8_bound [of "buf ! (i + 1)"] by arith
  have "unat (word_of_nat ?n :: 16 word) = ?n mod 2 ^ LENGTH(16)"
    by (rule unat_of_nat)
  with n have "unat (word_of_nat ?n :: 16 word) = ?n"
    by simp
  then have "uint (word_of_nat ?n :: 16 word) = int (unat (buf ! i)) + 256 * int (unat (buf ! (i + 1)))"
    by (simp only: uint_nat [of "word_of_nat ?n :: 16 word"])
  then have "uint (word_of_nat ?n :: 16 word) = uint (buf ! i) + 256 * uint (buf ! (i + 1))"
    by (simp only: uint_nat [of "buf ! i"] uint_nat [of "buf ! (i + 1)"])
  then have "sint (word_of_nat ?n :: 16 word) = le16_signed buf i"
    by (simp add: sint_16_uint le16_signed_def Let_def)
  moreover from assms have "read_16 buf i = Some (word_of_nat ?n)"
    by (simp add: read_16_def arr_read_def)
  ultimately show ?thesis by simp
qed

lemma sint_sign_fix: "sint (sign_fix v) = recovered (sint v)"
proof (cases "sint v < 0")
  case True
  have "- 32768 \<le> 0 - sint v - 32768" "0 - sint v - 32768 < 32768"
    using sint_16_bounds [of v] True by arith+
  then have "sint (word_of_int (0 - sint v - 32768) :: 16 word) = 0 - sint v - 32768"
    by (rule sint_16_of_int)
  moreover have "sign_fix v = word_of_int (0 - sint v - 32768)"
    using True by (simp only: sign_fix_def if_True)
  ultimately show ?thesis using True by (simp only: recovered_def if_True)
next
  case False
  then show ?thesis by (simp add: sign_fix_def recovered_def)
qed

lemma sign_fix_bounds: "- 32767 \<le> sint (sign_fix v) \<and> sint (sign_fix v) \<le> 32767"
  using sint_16_bounds [of v] by (simp add: sint_sign_fix recovered_def)

lemma sint_negate_sign_fix:
  "sint (word_of_int (0 - sint (sign_fix v)) :: 16 word) = - recovered (sint v)"
proof -
  have "- 32768 \<le> 0 - sint (sign_fix v)" "0 - sint (sign_fix v) < 32768"
    using sign_fix_bounds [of v] by arith+
  then have "sint (word_of_int (0 - sint (sign_fix v)) :: 16 word) = 0 - sint (sign_fix v)"
    by (rule sint_16_of_int)
  then show ?thesis by (simp only: sint_sign_fix)
qed

text \<open>
  \<open>sqrt_trunc\<close> is the integer part of the square root, and the distance of two 16-bit
  coordinates fits the \<open>uint16_t\<close> it is stored in.
\<close>

lemma sqrt_trunc_bounds:
  "0 \<le> n \<Longrightarrow>
     0 \<le> sqrt_trunc n \<and> sqrt_trunc n * sqrt_trunc n \<le> n \<and>
     n < (sqrt_trunc n + 1) * (sqrt_trunc n + 1)"
proof (induction n rule: sqrt_trunc.induct)
  case (1 n)
  show ?case
  proof (cases "n < 4")
    case True
    with "1.prems" show ?thesis
      by (auto simp: sqrt_trunc.simps [of n])
  next
    case False
    define m where "m = n div 4"
    define q where "q = sqrt_trunc m"
    from False "1.prems" have m0: "0 \<le> m" by (simp add: m_def)
    from "1.IH" [OF False] m0 have
      q: "0 \<le> q" "q * q \<le> m" "m < (q + 1) * (q + 1)"
      by (simp_all add: m_def q_def)
    have n1: "4 * m \<le> n" and n2: "n < 4 * m + 4"
      by (simp_all add: m_def)
    from q(2) have lo: "(2 * q) * (2 * q) \<le> 4 * m" by simp
    from q(3) have "m + 1 \<le> (q + 1) * (q + 1)" by simp
    then have hi: "4 * m + 4 \<le> (2 * q + 2) * (2 * q + 2)"
      by (simp add: algebra_simps)
    have res: "sqrt_trunc n = (if (2 * q + 1) * (2 * q + 1) \<le> n then 2 * q + 1 else 2 * q)"
      using False by (simp add: sqrt_trunc.simps [of n] Let_def q_def m_def)
    show ?thesis
    proof (cases "(2 * q + 1) * (2 * q + 1) \<le> n")
      case True
      with res have r: "sqrt_trunc n = 2 * q + 1" by simp
      from n2 hi have "n < (2 * q + 1 + 1) * (2 * q + 1 + 1)" by (simp add: algebra_simps)
      with True q(1) show ?thesis by (simp only: r) simp
    next
      case no: False
      with res have r: "sqrt_trunc n = 2 * q" by simp
      from no have "n < (2 * q + 1) * (2 * q + 1)" by simp
      moreover from lo n1 have "(2 * q) * (2 * q) \<le> n" by linarith
      ultimately show ?thesis using q(1) by (simp only: r) simp
    qed
  qed
qed


lemma square_16_bound:
  fixes x :: int
  assumes "- 32768 \<le> x" "x < 32768"
  shows "0 \<le> x * x \<and> x * x \<le> 1073741824"
proof -
  from assms have "\<bar>x\<bar> \<le> 32768" by simp
  then have "\<bar>x\<bar> * \<bar>x\<bar> \<le> 32768 * 32768"
    by (intro mult_mono) simp_all
  then show ?thesis by (simp add: abs_mult_self_eq)
qed

lemma sqrt_trunc_fits:
  assumes "0 \<le> n" "n < 4294967296"
  shows "0 \<le> sqrt_trunc n \<and> sqrt_trunc n < 65536"
proof -
  from sqrt_trunc_bounds [OF assms(1)] have r: "0 \<le> sqrt_trunc n"
    "sqrt_trunc n * sqrt_trunc n \<le> n" by simp_all
  have "sqrt_trunc n < 65536"
  proof (rule ccontr)
    assume "\<not> sqrt_trunc n < 65536"
    then have "65536 \<le> sqrt_trunc n" by simp
    then have "65536 * 65536 \<le> sqrt_trunc n * sqrt_trunc n"
      by (intro mult_mono) simp_all
    with r(2) assms(2) show False by simp
  qed
  with r(1) show ?thesis by simp
qed

subsection \<open>Decoding a frame\<close>

lemma LD2450Target_effect:
  assumes len: "30 \<le> length (rcv_arr_body (ld2450_received s))"
    and idx: "index < length (ld2450_target s)" "index < 3"
  shows "\<exists>t. slot_decoded (ld2450_config s) (rcv_arr_body (ld2450_received s)) index t \<and>
           LD2450Target index s =
             Some (s\<lparr>ld2450_target := (ld2450_target s)[index := t],
                     ld2450_status :=
                       (if tgt_zone t
                        then (ld2450_status s)\<lparr>sts_counter := sts_counter (ld2450_status s) + 1\<rparr>
                        else ld2450_status s)\<rparr>)"
proof -
  let ?body = "rcv_arr_body (ld2450_received s)"
  let ?cfg = "ld2450_config s"
  from len idx obtain rx where rx: "read_16 ?body (4 + index * 8) = Some rx"
      "sint rx = le16_signed ?body (4 + index * 8)"
    using read_16_signed [of "4 + index * 8" ?body] by auto
  from len idx obtain ry where ry: "read_16 ?body (4 + index * 8 + 2) = Some ry"
      "sint ry = le16_signed ?body (4 + index * 8 + 2)"
    using read_16_signed [of "4 + index * 8 + 2" ?body] by auto
  from len idx obtain rs where rs: "read_16 ?body (4 + index * 8 + 4) = Some rs"
      "sint rs = le16_signed ?body (4 + index * 8 + 4)"
    using read_16_signed [of "4 + index * 8 + 4" ?body] by auto
  have ry': "read_16 ?body (6 + index * 8) = Some ry"
    using ry(1) by simp
  have rs': "read_16 ?body (8 + index * 8) = Some rs"
    using rs(1) by simp
  define x where "x = sign_fix rx"
  define y :: "16 word" where "y = word_of_int (0 - sint (sign_fix ry))"
  define speed where "speed = sign_fix rs"
  define dist :: "16 word" where "dist = word_of_int (sqrt_trunc (sint x * sint x + sint y * sint y))"
  define t where "t = \<lparr> tgt_x = x, tgt_y = y, tgt_speed = speed, tgt_dist = dist,
     tgt_zone = ((unat dist > 0 \<and> (sint x \<ge> sint (cfg_x1 ?cfg) \<and> sint x \<le> sint (cfg_x2 ?cfg))) \<and>
                 (sint y \<ge> sint (cfg_y1 ?cfg) \<and> sint y \<le> sint (cfg_y2 ?cfg))) \<rparr>"
  have sx: "sint x = recovered (le16_signed ?body (4 + index * 8))"
    by (simp only: x_def sint_sign_fix rx)
  have sy: "sint y = - recovered (le16_signed ?body (4 + index * 8 + 2))"
    by (simp only: y_def sint_negate_sign_fix ry)
  have ss: "sint speed = recovered (le16_signed ?body (4 + index * 8 + 4))"
    by (simp only: speed_def sint_sign_fix rs)
  have "slot_decoded ?cfg ?body index t"
    unfolding slot_decoded_def in_zone_def using sx sy ss by (auto simp: t_def dist_def)
  moreover have "LD2450Target index s =
             Some (s\<lparr>ld2450_target := (ld2450_target s)[index := t],
                     ld2450_status :=
                       (if tgt_zone t
                        then (ld2450_status s)\<lparr>sts_counter := sts_counter (ld2450_status s) + 1\<rparr>
                        else ld2450_status s)\<rparr>)"
    unfolding LD2450Target_def t_def dist_def speed_def y_def x_def
    using idx by (simp add: rx ry' rs' Let_def arr_write_def)
  ultimately show ?thesis by blast
qed

text \<open>A decoded slot has the distance 0 exactly when both coordinates are 0.\<close>

lemma slot_decoded_dist:
  assumes "slot_decoded cfg body index t"
  shows "uint (tgt_dist t) = sqrt_trunc (sint (tgt_x t) * sint (tgt_x t) + sint (tgt_y t) * sint (tgt_y t))"
    and "unat (tgt_dist t) = 0 \<longleftrightarrow> sint (tgt_x t) = 0 \<and> sint (tgt_y t) = 0"
proof -
  let ?n = "sint (tgt_x t) * sint (tgt_x t) + sint (tgt_y t) * sint (tgt_y t)"
  from square_16_bound [of "sint (tgt_x t)"] square_16_bound [of "sint (tgt_y t)"]
    sint_16_bounds [of "tgt_x t"] sint_16_bounds [of "tgt_y t"]
  have n: "0 \<le> ?n" "?n < 4294967296" by simp_all
  from sqrt_trunc_fits [OF n] have f: "0 \<le> sqrt_trunc ?n" "sqrt_trunc ?n < 65536" by simp_all
  from assms have d: "tgt_dist t = word_of_int (sqrt_trunc ?n)"
    by (simp add: slot_decoded_def)
  have "uint (word_of_int (sqrt_trunc ?n) :: 16 word) = sqrt_trunc ?n mod 2 ^ LENGTH(16)"
    by (rule uint_word_of_int)
  with f show u: "uint (tgt_dist t) = sqrt_trunc ?n"
    by (simp only: d) simp
  from sqrt_trunc_bounds [OF n(1)] have b: "sqrt_trunc ?n * sqrt_trunc ?n \<le> ?n"
    "?n < (sqrt_trunc ?n + 1) * (sqrt_trunc ?n + 1)" by simp_all
  have "unat (tgt_dist t) = 0 \<longleftrightarrow> uint (tgt_dist t) = 0"
    by (simp only: unat_0_iff uint_0_iff)
  also have "\<dots> \<longleftrightarrow> sqrt_trunc ?n = 0"
    by (simp only: u)
  also have "\<dots> \<longleftrightarrow> ?n = 0"
  proof
    assume e: "sqrt_trunc ?n = 0"
    from b(2) have "?n < 1" by (simp add: e)
    with n(1) show "?n = 0" by linarith
  next
    assume z: "?n = 0"
    show "sqrt_trunc ?n = 0"
    proof (rule ccontr)
      assume "sqrt_trunc ?n \<noteq> 0"
      with f(1) have "1 \<le> sqrt_trunc ?n" by simp
      then have "1 * 1 \<le> sqrt_trunc ?n * sqrt_trunc ?n" by (intro mult_mono) simp_all
      with b(1) z show False by simp
    qed
  qed
  also have "\<dots> \<longleftrightarrow> sint (tgt_x t) = 0 \<and> sint (tgt_y t) = 0"
    by (simp add: sum_squares_eq_zero_iff)
  finally show "unat (tgt_dist t) = 0 \<longleftrightarrow> sint (tgt_x t) = 0 \<and> sint (tgt_y t) = 0" .
qed

lemma list3_update:
  assumes "length tg = 3"
  shows "tg[0 := a, 1 := b, 2 := c] = [a, b, c]"
proof -
  from assms obtain p q r where "tg = [p, q, r]"
    by (cases tg; cases "tl tg"; cases "tl (tl tg)") auto
  then show ?thesis by simp
qed

lemma LD2450TargetLoop_unroll:
  "LD2450TargetLoop 0 s =
     (case LD2450Target 0 s of None \<Rightarrow> None
      | Some s1 \<Rightarrow> (case LD2450Target 1 s1 of None \<Rightarrow> None
         | Some s2 \<Rightarrow> (case LD2450Target 2 s2 of None \<Rightarrow> None
            | Some s3 \<Rightarrow> Some s3)))"
  by (simp add: LD2450TargetLoop.simps [of 0] LD2450TargetLoop.simps [of "Suc 0"]
      LD2450TargetLoop.simps [of "Suc (Suc 0)"] LD2450TargetLoop.simps [of "Suc (Suc (Suc 0))"]
      LD2450_TARGET_MAX_def numeral_2_eq_2 numeral_3_eq_3 split: option.split)

lemma LD2450TargetLoop_effect:
  assumes len: "30 \<le> length (rcv_arr_body (ld2450_received s))"
    and tg: "length (ld2450_target s) = 3"
  shows "\<exists>t0 t1 t2.
           slot_decoded (ld2450_config s) (rcv_arr_body (ld2450_received s)) 0 t0 \<and>
           slot_decoded (ld2450_config s) (rcv_arr_body (ld2450_received s)) 1 t1 \<and>
           slot_decoded (ld2450_config s) (rcv_arr_body (ld2450_received s)) 2 t2 \<and>
           LD2450TargetLoop 0 s =
             Some (s\<lparr>ld2450_target := [t0, t1, t2],
                     ld2450_status := (ld2450_status s)
                       \<lparr>sts_counter := sts_counter (ld2450_status s)
                           + of_nat (length (filter tgt_zone [t0, t1, t2]))\<rparr>\<rparr>)"
proof -
  let ?body = "rcv_arr_body (ld2450_received s)"
  let ?cfg = "ld2450_config s"
  from LD2450Target_effect [of s 0] len tg
  obtain t0 s1 where t0: "slot_decoded ?cfg ?body 0 t0"
    and r0: "LD2450Target 0 s = Some s1"
    and s1: "s1 = s\<lparr>ld2450_target := (ld2450_target s)[0 := t0],
                     ld2450_status :=
                       (if tgt_zone t0
                        then (ld2450_status s)\<lparr>sts_counter := sts_counter (ld2450_status s) + 1\<rparr>
                        else ld2450_status s)\<rparr>"
    by auto
  have k1: "rcv_arr_body (ld2450_received s1) = ?body" "ld2450_config s1 = ?cfg"
    "length (ld2450_target s1) = 3"
    using tg by (simp_all add: s1)
  from LD2450Target_effect [of s1 1] len k1
  obtain t1 s2 where t1: "slot_decoded ?cfg ?body 1 t1"
    and r1: "LD2450Target 1 s1 = Some s2"
    and s2: "s2 = s1\<lparr>ld2450_target := (ld2450_target s1)[1 := t1],
                     ld2450_status :=
                       (if tgt_zone t1
                        then (ld2450_status s1)\<lparr>sts_counter := sts_counter (ld2450_status s1) + 1\<rparr>
                        else ld2450_status s1)\<rparr>"
    by auto
  have k2: "rcv_arr_body (ld2450_received s2) = ?body" "ld2450_config s2 = ?cfg"
    "length (ld2450_target s2) = 3"
    using k1 by (simp_all add: s2)
  from LD2450Target_effect [of s2 2] len k2
  obtain t2 s3 where t2: "slot_decoded ?cfg ?body 2 t2"
    and r2: "LD2450Target 2 s2 = Some s3"
    and s3: "s3 = s2\<lparr>ld2450_target := (ld2450_target s2)[2 := t2],
                     ld2450_status :=
                       (if tgt_zone t2
                        then (ld2450_status s2)\<lparr>sts_counter := sts_counter (ld2450_status s2) + 1\<rparr>
                        else ld2450_status s2)\<rparr>"
    by auto
  have run: "LD2450TargetLoop 0 s = Some s3"
    using r0 r1 r2 by (simp add: LD2450TargetLoop_unroll)
  have tgs: "ld2450_target s3 = [t0, t1, t2]"
    using list3_update [OF tg, of t0 t1 t2] by (simp add: s3 s2 s1)
  have "s3 = s\<lparr>ld2450_target := [t0, t1, t2],
                     ld2450_status := (ld2450_status s)
                       \<lparr>sts_counter := sts_counter (ld2450_status s)
                           + of_nat (length (filter tgt_zone [t0, t1, t2]))\<rparr>\<rparr>"
    using tgs by (simp add: s3 s2 s1)
  with run t0 t1 t2 show ?thesis by blast
qed

lemma log_body_Some:
  "\<forall>i \<in> set is. i < length body \<Longrightarrow> \<exists>t. log_body body is = Some t"
  by (induction "is") (auto simp: arr_read_def)

lemma LD2450LogMessage_effect:
  assumes "unat (rcv_idx_body (ld2450_received s)) \<le> length (rcv_arr_body (ld2450_received s))"
  shows "\<exists>t. LD2450LogMessage s = Some (s\<lparr>log_lines := log_lines s @ [''HLK: recv'' @ t]\<rparr>)"
proof -
  from assms obtain t where "log_body (rcv_arr_body (ld2450_received s))
             [0 ..< unat (rcv_idx_body (ld2450_received s))] = Some t"
    using log_body_Some [of "[0 ..< unat (rcv_idx_body (ld2450_received s))]"
        "rcv_arr_body (ld2450_received s)"] by auto
  then have "LD2450LogMessage s = Some (s\<lparr>log_lines := log_lines s @ [''HLK: recv'' @ t]\<rparr>)"
    by (simp add: LD2450LogMessage_def)
  then show ?thesis by (rule exI)
qed

lemma unat_count3: "n \<le> 3 \<Longrightarrow> unat (word_of_nat n :: 8 word) = n"
  by (simp add: unat_of_nat)

lemma LD2450DataMessage_effect:
  assumes body: "length (rcv_arr_body (ld2450_received s)) = 32"
    and idx: "unat (rcv_idx_body (ld2450_received s)) \<le> 32"
    and tg: "length (ld2450_target s) = 3"
  shows "\<exists>t0 t1 t2 msg.
           slot_decoded (ld2450_config s) (rcv_arr_body (ld2450_received s)) 0 t0 \<and>
           slot_decoded (ld2450_config s) (rcv_arr_body (ld2450_received s)) 1 t1 \<and>
           slot_decoded (ld2450_config s) (rcv_arr_body (ld2450_received s)) 2 t2 \<and>
           LD2450DataMessage now s =
             Some (s\<lparr>ld2450_target := [t0, t1, t2],
                     ld2450_status := (ld2450_status s)
                       \<lparr>sts_counter := of_nat (length (filter tgt_zone [t0, t1, t2])),
                        sts_timestamp := (if 0 < length (filter tgt_zone [t0, t1, t2]) then now
                                          else sts_timestamp (ld2450_status s))\<rparr>,
                     log_lines := log_lines s @ [''HLK: recv'' @ msg],
                     ld2450_received := (ld2450_received s)\<lparr>rcv_idx_body := 0\<rparr>\<rparr>)"
proof -
  let ?s0 = "s\<lparr>ld2450_status := (ld2450_status s)\<lparr>sts_counter := 0\<rparr>\<rparr>"
  from body idx obtain msg where lg: "LD2450LogMessage ?s0 =
      Some (?s0\<lparr>log_lines := log_lines ?s0 @ [''HLK: recv'' @ msg]\<rparr>)"
    using LD2450LogMessage_effect [of ?s0] by auto
  let ?s1 = "?s0\<lparr>log_lines := log_lines ?s0 @ [''HLK: recv'' @ msg]\<rparr>"
  from body tg obtain t0 t1 t2 where
    dec: "slot_decoded (ld2450_config s) (rcv_arr_body (ld2450_received s)) 0 t0"
         "slot_decoded (ld2450_config s) (rcv_arr_body (ld2450_received s)) 1 t1"
         "slot_decoded (ld2450_config s) (rcv_arr_body (ld2450_received s)) 2 t2"
    and lp: "LD2450TargetLoop 0 ?s1 =
             Some (?s1\<lparr>ld2450_target := [t0, t1, t2],
                     ld2450_status := (ld2450_status ?s1)
                       \<lparr>sts_counter := sts_counter (ld2450_status ?s1)
                           + of_nat (length (filter tgt_zone [t0, t1, t2]))\<rparr>\<rparr>)"
    using LD2450TargetLoop_effect [of ?s1] by auto
  have n: "length (filter tgt_zone [t0, t1, t2]) \<le> 3"
    using length_filter_le [of tgt_zone "[t0, t1, t2]"] by simp
  have "LD2450DataMessage now s =
             Some (s\<lparr>ld2450_target := [t0, t1, t2],
                     ld2450_status := (ld2450_status s)
                       \<lparr>sts_counter := of_nat (length (filter tgt_zone [t0, t1, t2])),
                        sts_timestamp := (if 0 < length (filter tgt_zone [t0, t1, t2]) then now
                                          else sts_timestamp (ld2450_status s))\<rparr>,
                     log_lines := log_lines s @ [''HLK: recv'' @ msg],
                     ld2450_received := (ld2450_received s)\<lparr>rcv_idx_body := 0\<rparr>\<rparr>)"
    unfolding LD2450DataMessage_def Let_def
    by (simp only: lg lp bind.bind_lunit) (simp add: unat_count3 [OF n])
  with dec show ?thesis by blast
qed

lemma LD2450DataMessage_fields:
  assumes "ld2450_wf s" and "unat (rcv_idx_body (ld2450_received s)) \<le> 32"
  shows "\<exists>s' t0 t1 t2 msg. LD2450DataMessage now s = Some s' \<and>
           slot_decoded (ld2450_config s) (rcv_arr_body (ld2450_received s)) 0 t0 \<and>
           slot_decoded (ld2450_config s) (rcv_arr_body (ld2450_received s)) 1 t1 \<and>
           slot_decoded (ld2450_config s) (rcv_arr_body (ld2450_received s)) 2 t2 \<and>
           ld2450_target s' = [t0, t1, t2] \<and>
           unat (sts_counter (ld2450_status s')) = length (filter tgt_zone (ld2450_target s')) \<and>
           sts_timestamp (ld2450_status s') =
             (if 0 < unat (sts_counter (ld2450_status s')) then now
              else sts_timestamp (ld2450_status s)) \<and>
           sts_pserial (ld2450_status s') = sts_pserial (ld2450_status s) \<and>
           sts_enabled (ld2450_status s') = sts_enabled (ld2450_status s) \<and>
           ld2450_config s' = ld2450_config s \<and>
           free_ea6 s' = free_ea6 s \<and>
           log_lines s' = log_lines s @ [''HLK: recv'' @ msg] \<and>
           ld2450_received s' = (ld2450_received s)\<lparr>rcv_idx_body := 0\<rparr>"
proof -
  from assms have "length (rcv_arr_body (ld2450_received s)) = 32"
    "unat (rcv_idx_body (ld2450_received s)) \<le> 32" "length (ld2450_target s) = 3"
    by (simp_all add: ld2450_wf_def LD2450_MSG_SIZE_MAX_def LD2450_TARGET_MAX_def)
  from LD2450DataMessage_effect [OF this, of now]
  obtain t0 t1 t2 msg where dec:
      "slot_decoded (ld2450_config s) (rcv_arr_body (ld2450_received s)) 0 t0"
      "slot_decoded (ld2450_config s) (rcv_arr_body (ld2450_received s)) 1 t1"
      "slot_decoded (ld2450_config s) (rcv_arr_body (ld2450_received s)) 2 t2"
    and run: "LD2450DataMessage now s =
             Some (s\<lparr>ld2450_target := [t0, t1, t2],
                     ld2450_status := (ld2450_status s)
                       \<lparr>sts_counter := of_nat (length (filter tgt_zone [t0, t1, t2])),
                        sts_timestamp := (if 0 < length (filter tgt_zone [t0, t1, t2]) then now
                                          else sts_timestamp (ld2450_status s))\<rparr>,
                     log_lines := log_lines s @ [''HLK: recv'' @ msg],
                     ld2450_received := (ld2450_received s)\<lparr>rcv_idx_body := 0\<rparr>\<rparr>)"
    by blast
  define n where "n = length (filter tgt_zone [t0, t1, t2])"
  have n: "n \<le> 3"
    unfolding n_def using length_filter_le [of tgt_zone "[t0, t1, t2]"] by simp
  have u: "unat (word_of_nat n :: 8 word) = n"
    by (rule unat_count3 [OF n])
  define s' where "s' = s\<lparr>ld2450_target := [t0, t1, t2],
                     ld2450_status := (ld2450_status s)
                       \<lparr>sts_counter := of_nat n,
                        sts_timestamp := (if 0 < n then now
                                          else sts_timestamp (ld2450_status s))\<rparr>,
                     log_lines := log_lines s @ [''HLK: recv'' @ msg],
                     ld2450_received := (ld2450_received s)\<lparr>rcv_idx_body := 0\<rparr>\<rparr>"
  have run': "LD2450DataMessage now s = Some s'"
    unfolding s'_def n_def by (rule run)
  have f: "ld2450_target s' = [t0, t1, t2]"
    "unat (sts_counter (ld2450_status s')) = n"
    "sts_timestamp (ld2450_status s') = (if 0 < n then now else sts_timestamp (ld2450_status s))"
    "sts_pserial (ld2450_status s') = sts_pserial (ld2450_status s)"
    "sts_enabled (ld2450_status s') = sts_enabled (ld2450_status s)"
    "ld2450_config s' = ld2450_config s"
    "free_ea6 s' = free_ea6 s"
    "log_lines s' = log_lines s @ [''HLK: recv'' @ msg]"
    "ld2450_received s' = (ld2450_received s)\<lparr>rcv_idx_body := 0\<rparr>"
    by (simp_all add: s'_def u)
  have "unat (sts_counter (ld2450_status s')) = length (filter tgt_zone (ld2450_target s'))"
    by (simp only: f n_def)
  moreover have "sts_timestamp (ld2450_status s') =
             (if 0 < unat (sts_counter (ld2450_status s')) then now
              else sts_timestamp (ld2450_status s))"
    by (simp only: f)
  ultimately show ?thesis
    using run' dec f(1,4-9) by blast
qed

lemma split256:
  fixes a a' m m' :: nat
  assumes "a < 256" "a' < 256"
  shows "(a + 256 * m = a' + 256 * m') = (a = a' \<and> m = m')"
proof
  assume eq: "a + 256 * m = a' + 256 * m'"
  then have "(a + 256 * m) mod 256 = (a' + 256 * m') mod 256" by simp
  with assms have "a = a'" by simp
  with eq show "a = a' \<and> m = m'" by simp
next
  assume "a = a' \<and> m = m'"
  then show "a + 256 * m = a' + 256 * m'" by simp
qed

lemma bytes4_eq:
  fixes a b c d :: "8 word"
  shows "unat a + 256 * (unat b + 256 * (unat c + 256 * unat d)) = 170 + 256 * (255 + 256 * (3 + 256 * 0))
    \<longleftrightarrow> unat a = 170 \<and> unat b = 255 \<and> unat c = 3 \<and> unat d = 0"
proof -
  have k: "(170 :: nat) < 256" "(255 :: nat) < 256" "(3 :: nat) < 256" by simp_all
  note s1 = split256 [OF unat_8_bound [of a] k(1)]
  note s2 = split256 [OF unat_8_bound [of b] k(2)]
  note s3 = split256 [OF unat_8_bound [of c] k(3)]
  show ?thesis by (simp only: s1 s2 s3)
qed

lemma bytes2_eq:
  fixes c d :: "8 word"
  shows "unat c + 256 * unat d = 85 + 256 * 204 \<longleftrightarrow> unat c = 85 \<and> unat d = 204"
proof -
  have k: "(85 :: nat) < 256" by simp
  show ?thesis by (simp only: split256 [OF unat_8_bound [of c] k])
qed

subsection \<open>The example states\<close>

lemma ld2450_wf_example_state: "ld2450_wf example_state"
  by (simp add: ld2450_wf_def example_state_def example_idle_def ld2450_boot_def
      example_frame_def LD2450_MSG_SIZE_MAX_def LD2450_TARGET_MAX_def)

lemma idx_example_state: "rcv_idx_body (ld2450_received example_state) = 30"
  by (simp add: example_state_def)

lemma sqrt_trunc_3400: "sqrt_trunc 3400 = 58"
  by (simp add: sqrt_trunc.simps)

lemma sqrt_trunc_0: "sqrt_trunc 0 = 0"
  by (simp add: sqrt_trunc.simps)

lemma example_slots:
  "recovered (le16_signed (example_frame @ [0, 0]) 4) = 50"
  "recovered (le16_signed (example_frame @ [0, 0]) 6) = - 30"
  "recovered (le16_signed (example_frame @ [0, 0]) 8) = 16"
  "recovered (le16_signed (example_frame @ [0, 0]) 12) = 0"
  "recovered (le16_signed (example_frame @ [0, 0]) 14) = 0"
  "recovered (le16_signed (example_frame @ [0, 0]) 16) = 0"
  "recovered (le16_signed (example_frame @ [0, 0]) 20) = 0"
  "recovered (le16_signed (example_frame @ [0, 0]) 22) = 0"
  "recovered (le16_signed (example_frame @ [0, 0]) 24) = 0"
  by (simp_all add: recovered_def le16_signed_def example_frame_def)

lemma example_config:
  "sint (cfg_x1 (ld2450_config example_state)) = - 6000"
  "sint (cfg_x2 (ld2450_config example_state)) = 6000"
  "sint (cfg_y1 (ld2450_config example_state)) = 0"
  "sint (cfg_y2 (ld2450_config example_state)) = 6000"
  by (simp_all add: example_state_def example_idle_def ld2450_boot_def LD2450_DIST_MAX_def)

lemma example_decode:
  "\<exists>s'. LD2450DataMessage now example_state = Some s' \<and>
      map (\<lambda>t. (sint (tgt_x t), sint (tgt_y t), sint (tgt_speed t), unat (tgt_dist t), tgt_zone t))
        (ld2450_target s') = [(50, 30, 16, 58, True), (0, 0, 0, 0, False), (0, 0, 0, 0, False)] \<and>
      sts_counter (ld2450_status s') = 1 \<and>
      sts_timestamp (ld2450_status s') = now \<and>
      rcv_idx_body (ld2450_received s') = 0 \<and>
      length (log_lines s') = Suc (length (log_lines example_state))"
proof -
  have body: "rcv_arr_body (ld2450_received example_state) = example_frame @ [0, 0]"
    by (simp add: example_state_def)
  have "length (rcv_arr_body (ld2450_received example_state)) = 32"
    "unat (rcv_idx_body (ld2450_received example_state)) \<le> 32"
    "length (ld2450_target example_state) = 3"
    using ld2450_wf_example_state idx_example_state
    by (simp_all add: ld2450_wf_def LD2450_MSG_SIZE_MAX_def LD2450_TARGET_MAX_def)
  from LD2450DataMessage_effect [OF this, of now]
  obtain t0 t1 t2 msg where
    d0: "slot_decoded (ld2450_config example_state) (example_frame @ [0, 0]) 0 t0" and
    d1: "slot_decoded (ld2450_config example_state) (example_frame @ [0, 0]) 1 t1" and
    d2: "slot_decoded (ld2450_config example_state) (example_frame @ [0, 0]) 2 t2" and
    run: "LD2450DataMessage now example_state =
             Some (example_state\<lparr>ld2450_target := [t0, t1, t2],
                     ld2450_status := (ld2450_status example_state)
                       \<lparr>sts_counter := of_nat (length (filter tgt_zone [t0, t1, t2])),
                        sts_timestamp := (if 0 < length (filter tgt_zone [t0, t1, t2]) then now
                                          else sts_timestamp (ld2450_status example_state))\<rparr>,
                     log_lines := log_lines example_state @ [''HLK: recv'' @ msg],
                     ld2450_received := (ld2450_received example_state)\<lparr>rcv_idx_body := 0\<rparr>\<rparr>)"
    unfolding body by blast
  have v0: "sint (tgt_x t0) = 50" "sint (tgt_y t0) = 30" "sint (tgt_speed t0) = 16"
    "tgt_dist t0 = 58" "tgt_zone t0"
    using d0 by (simp_all add: slot_decoded_def in_zone_def example_slots example_config sqrt_trunc_3400)
  have v1: "sint (tgt_x t1) = 0" "sint (tgt_y t1) = 0" "sint (tgt_speed t1) = 0"
    "tgt_dist t1 = 0" "\<not> tgt_zone t1"
    using d1 by (simp_all add: slot_decoded_def in_zone_def example_slots example_config sqrt_trunc_0)
  have v2: "sint (tgt_x t2) = 0" "sint (tgt_y t2) = 0" "sint (tgt_speed t2) = 0"
    "tgt_dist t2 = 0" "\<not> tgt_zone t2"
    using d2 by (simp_all add: slot_decoded_def in_zone_def example_slots example_config sqrt_trunc_0)
  show ?thesis
    by (simp add: run v0 v1 v2)
qed

subsection \<open>Target decoder\<close>

text \<open>
  Claim C1. When a complete frame (30 bytes in the message body) is decoded, every target
  slot \<open>i\<close> of the three gets its x, y and speed from the 16-bit little-endian signed
  values at offsets \<open>4 + i * 8\<close>, \<open>+ 2\<close> and \<open>+ 4\<close>: a negative raw value \<open>raw\<close> is
  decoded as \<open>- raw - 32768\<close>, any other as itself, each field on its own, and the y
  field is negated after that.
\<close>

theorem target_decoder_sign_recovery:
  assumes "ld2450_wf s" and "rcv_idx_body (ld2450_received s) = 30" and "i < 3"
  shows "\<exists>s'. LD2450DataMessage now s = Some s' \<and>
           sint (tgt_x (ld2450_target s' ! i)) =
             recovered (le16_signed (rcv_arr_body (ld2450_received s)) (4 + i * 8)) \<and>
           sint (tgt_y (ld2450_target s' ! i)) =
             - recovered (le16_signed (rcv_arr_body (ld2450_received s)) (4 + i * 8 + 2)) \<and>
           sint (tgt_speed (ld2450_target s' ! i)) =
             recovered (le16_signed (rcv_arr_body (ld2450_received s)) (4 + i * 8 + 4))"
proof -
  from assms(1,2) have "length (rcv_arr_body (ld2450_received s)) = 32"
    "unat (rcv_idx_body (ld2450_received s)) \<le> 32" "length (ld2450_target s) = 3"
    by (simp_all add: ld2450_wf_def LD2450_MSG_SIZE_MAX_def LD2450_TARGET_MAX_def)
  from LD2450DataMessage_effect [OF this, of now]
  obtain t0 t1 t2 s' where dec:
      "slot_decoded (ld2450_config s) (rcv_arr_body (ld2450_received s)) 0 t0"
      "slot_decoded (ld2450_config s) (rcv_arr_body (ld2450_received s)) 1 t1"
      "slot_decoded (ld2450_config s) (rcv_arr_body (ld2450_received s)) 2 t2"
    and run: "LD2450DataMessage now s = Some s'"
    and tg: "ld2450_target s' = [t0, t1, t2]"
    by auto
  from \<open>i < 3\<close> have "i = 0 \<or> i = 1 \<or> i = 2" by arith
  with dec have "slot_decoded (ld2450_config s) (rcv_arr_body (ld2450_received s)) i
      (ld2450_target s' ! i)"
    by (auto simp: tg)
  with run show ?thesis
    unfolding slot_decoded_def by blast
qed

text \<open>The example frame: x = 0x0032 is 50, y = 0x801E is 30 and speed = 0x0010 is 16.\<close>

theorem target_decoder_sign_recovery_witness:
  "ld2450_wf example_state \<and> rcv_idx_body (ld2450_received example_state) = 30 \<and>
   (\<exists>s'. LD2450DataMessage 1000 example_state = Some s' \<and>
      sint (tgt_x (ld2450_target s' ! 0)) = 50 \<and>
      sint (tgt_y (ld2450_target s' ! 0)) = 30 \<and>
      sint (tgt_speed (ld2450_target s' ! 0)) = 16)"
proof -
  have body: "rcv_arr_body (ld2450_received example_state) = example_frame @ [0, 0]"
    by (simp add: example_state_def)
  have v: "recovered (le16_signed (example_frame @ [0, 0]) 4) = 50"
    "recovered (le16_signed (example_frame @ [0, 0]) 6) = - 30"
    "recovered (le16_signed (example_frame @ [0, 0]) 8) = 16"
    by (simp_all add: recovered_def le16_signed_def example_frame_def)
  from target_decoder_sign_recovery [OF ld2450_wf_example_state idx_example_state, of 0 1000]
  show ?thesis
    by (simp add: body v ld2450_wf_example_state idx_example_state)
qed

subsection \<open>Zone classifier\<close>

text \<open>
  Claim C5, as the code has it. After a frame is decoded, the zone flag of every target is
  \<open>(distance > 0) AND (x1 \<le> x \<le> x2) AND (y1 \<le> y \<le> y2)\<close> with the bounds of the current
  configuration, both intervals closed, and the counter is the number of targets whose flag
  is set. In particular, in a zone with \<open>x1 \<le> x2\<close> and \<open>y1 \<le> y2\<close>, a target with a
  distance above 0 that lies exactly at \<open>(x1, y1)\<close> or \<open>(x2, y2)\<close> is in the zone, and a target
  with \<open>x = x1 - 1\<close> is not.
\<close>

theorem zone_classifier_closed_rectangle:
  assumes "ld2450_wf s" and "rcv_idx_body (ld2450_received s) = 30"
  shows "\<exists>s'. LD2450DataMessage now s = Some s' \<and>
           ld2450_config s' = ld2450_config s \<and>
           length (ld2450_target s') = 3 \<and>
           (\<forall>i<3. tgt_zone (ld2450_target s' ! i) \<longleftrightarrow>
                    unat (tgt_dist (ld2450_target s' ! i)) > 0 \<and>
                    (sint (cfg_x1 (ld2450_config s)) \<le> sint (tgt_x (ld2450_target s' ! i)) \<and>
                     sint (tgt_x (ld2450_target s' ! i)) \<le> sint (cfg_x2 (ld2450_config s))) \<and>
                    (sint (cfg_y1 (ld2450_config s)) \<le> sint (tgt_y (ld2450_target s' ! i)) \<and>
                     sint (tgt_y (ld2450_target s' ! i)) \<le> sint (cfg_y2 (ld2450_config s)))) \<and>
           unat (sts_counter (ld2450_status s')) = length (filter tgt_zone (ld2450_target s')) \<and>
           (\<forall>i<3. unat (tgt_dist (ld2450_target s' ! i)) > 0 \<longrightarrow>
                    sint (cfg_x1 (ld2450_config s)) \<le> sint (cfg_x2 (ld2450_config s)) \<longrightarrow>
                    sint (cfg_y1 (ld2450_config s)) \<le> sint (cfg_y2 (ld2450_config s)) \<longrightarrow>
                    (tgt_x (ld2450_target s' ! i) = cfg_x1 (ld2450_config s) \<and>
                     tgt_y (ld2450_target s' ! i) = cfg_y1 (ld2450_config s) \<or>
                     tgt_x (ld2450_target s' ! i) = cfg_x2 (ld2450_config s) \<and>
                     tgt_y (ld2450_target s' ! i) = cfg_y2 (ld2450_config s)) \<longrightarrow>
                    tgt_zone (ld2450_target s' ! i)) \<and>
           (\<forall>i<3. sint (tgt_x (ld2450_target s' ! i)) = sint (cfg_x1 (ld2450_config s)) - 1 \<longrightarrow>
                    \<not> tgt_zone (ld2450_target s' ! i))"
proof -
  let ?cfg = "ld2450_config s"
  from assms have "length (rcv_arr_body (ld2450_received s)) = 32"
    "unat (rcv_idx_body (ld2450_received s)) \<le> 32" "length (ld2450_target s) = 3"
    by (simp_all add: ld2450_wf_def LD2450_MSG_SIZE_MAX_def LD2450_TARGET_MAX_def)
  from LD2450DataMessage_effect [OF this, of now]
  obtain t0 t1 t2 s' where dec:
      "slot_decoded ?cfg (rcv_arr_body (ld2450_received s)) 0 t0"
      "slot_decoded ?cfg (rcv_arr_body (ld2450_received s)) 1 t1"
      "slot_decoded ?cfg (rcv_arr_body (ld2450_received s)) 2 t2"
    and run: "LD2450DataMessage now s = Some s'"
    and tg: "ld2450_target s' = [t0, t1, t2]"
    and cnt: "sts_counter (ld2450_status s') = of_nat (length (filter tgt_zone [t0, t1, t2]))"
    and cfg: "ld2450_config s' = ?cfg"
    by auto
  have n: "length (filter tgt_zone [t0, t1, t2]) \<le> 3"
    using length_filter_le [of tgt_zone "[t0, t1, t2]"] by simp
  have zone: "tgt_zone (ld2450_target s' ! i) = in_zone ?cfg (ld2450_target s' ! i)" if "i < 3" for i
  proof -
    from that have "i = 0 \<or> i = 1 \<or> i = 2" by arith
    with dec show ?thesis by (auto simp: tg slot_decoded_def)
  qed
  have counter: "unat (sts_counter (ld2450_status s')) = length (filter tgt_zone (ld2450_target s'))"
    by (simp only: cnt tg unat_count3 [OF n])
  have len: "length (ld2450_target s') = 3"
    by (simp add: tg)
  from run cfg len counter zone show ?thesis
    by (auto simp: in_zone_def)
qed

subsection \<open>Configuration\<close>

lemma sint_zone_byte:
  "sint (word_of_int ((uint (b :: 8 word) - 128) * 100) :: 16 word) = (uint b - 128) * 100"
proof -
  have "0 \<le> uint b" "uint b < 256" using uint_8_bound [of b] by simp_all
  then have "- 32768 \<le> (uint b - 128) * 100" "(uint b - 128) * 100 < 32768" by simp_all
  then show ?thesis by (rule sint_16_of_int)
qed

lemma sint_6000: "sint (word_of_int 6000 :: 16 word) = 6000" "sint (word_of_int (- 6000) :: 16 word) = - 6000"
  by simp_all

text \<open>
  Claim C2 says that \<open>x1 < x2\<close> and \<open>y1 < y2\<close> hold after \<open>LD2450LoadConfig\<close> for every
  content of the five settings bytes. The checks bound \<open>x1\<close> and \<open>y1\<close> from below only:
  with the x1 byte 255 the loaded zone has \<open>x1 = 12700\<close> and \<open>x2 = 6000\<close>.
\<close>

theorem LD2450LoadConfig_inverted_zone:
  "sint (cfg_x1 (ld2450_config (LD2450LoadConfig (ld2450_boot example_settings)))) = 12700 \<and>
   sint (cfg_x2 (ld2450_config (LD2450LoadConfig (ld2450_boot example_settings)))) = 6000 \<and>
   \<not> sint (cfg_x1 (ld2450_config (LD2450LoadConfig (ld2450_boot example_settings))))
       < sint (cfg_x2 (ld2450_config (LD2450LoadConfig (ld2450_boot example_settings))))"
  by (simp add: LD2450LoadConfig_def ld2450_boot_def example_settings_def LD2450_DIST_MAX_def Let_def)

text \<open>What the checks do establish.\<close>




lemma LD2450LoadConfig_x1_word:
  "cfg_x1 (ld2450_config (LD2450LoadConfig s)) =
     (if (uint (free_ea6 s 26) - 128) * 100 < - 6000 then word_of_int (- 6000)
      else word_of_int ((uint (free_ea6 s 26) - 128) * 100))"
  unfolding LD2450LoadConfig_def Let_def LD2450_DIST_MAX_def
  by (simp only: sint_zone_byte) simp

lemma LD2450LoadConfig_y1_word:
  "cfg_y1 (ld2450_config (LD2450LoadConfig s)) =
     (if (uint (free_ea6 s 28) - 128) * 100 < 0 then 0
      else word_of_int ((uint (free_ea6 s 28) - 128) * 100))"
  unfolding LD2450LoadConfig_def Let_def LD2450_DIST_MAX_def
  by (simp only: sint_zone_byte) simp

lemma LD2450LoadConfig_x2_word:
  "cfg_x2 (ld2450_config (LD2450LoadConfig s)) =
     (let x1 = (if (uint (free_ea6 s 26) - 128) * 100 < - 6000 then - 6000
                else (uint (free_ea6 s 26) - 128) * 100);
          x2 = (if (uint (free_ea6 s 27) - 128) * 100 > 6000 then 6000
                else (uint (free_ea6 s 27) - 128) * 100)
      in if x2 \<le> x1 then word_of_int 6000
         else if (uint (free_ea6 s 27) - 128) * 100 > 6000 then word_of_int 6000
         else word_of_int ((uint (free_ea6 s 27) - 128) * 100))"
  unfolding LD2450LoadConfig_def Let_def LD2450_DIST_MAX_def
  by (simp only: sint_zone_byte sint_6000 if_distrib [of sint]) simp

lemma LD2450LoadConfig_y2_word:
  "cfg_y2 (ld2450_config (LD2450LoadConfig s)) =
     (let y1 = (if (uint (free_ea6 s 28) - 128) * 100 < 0 then 0
                else (uint (free_ea6 s 28) - 128) * 100);
          y2 = (if (uint (free_ea6 s 29) - 128) * 100 > 6000 then 6000
                else (uint (free_ea6 s 29) - 128) * 100)
      in if y2 \<le> y1 then word_of_int 6000
         else if (uint (free_ea6 s 29) - 128) * 100 > 6000 then word_of_int 6000
         else word_of_int ((uint (free_ea6 s 29) - 128) * 100))"
  unfolding LD2450LoadConfig_def Let_def LD2450_DIST_MAX_def
  by (simp only: sint_zone_byte sint_6000 sint_0 if_distrib [of sint]) simp

lemma LD2450LoadConfig_x1:
  "sint (cfg_x1 (ld2450_config (LD2450LoadConfig s))) =
     (if (uint (free_ea6 s 26) - 128) * 100 < - 6000 then - 6000
      else (uint (free_ea6 s 26) - 128) * 100)"
  by (simp only: LD2450LoadConfig_x1_word sint_zone_byte sint_6000 if_distrib [of sint])

lemma LD2450LoadConfig_y1:
  "sint (cfg_y1 (ld2450_config (LD2450LoadConfig s))) =
     (if (uint (free_ea6 s 28) - 128) * 100 < 0 then 0
      else (uint (free_ea6 s 28) - 128) * 100)"
  by (simp only: LD2450LoadConfig_y1_word sint_zone_byte sint_0 if_distrib [of sint])

lemma LD2450LoadConfig_x2:
  "sint (cfg_x2 (ld2450_config (LD2450LoadConfig s))) =
     (let x1 = (if (uint (free_ea6 s 26) - 128) * 100 < - 6000 then - 6000
                else (uint (free_ea6 s 26) - 128) * 100);
          x2 = (if (uint (free_ea6 s 27) - 128) * 100 > 6000 then 6000
                else (uint (free_ea6 s 27) - 128) * 100)
      in if x2 \<le> x1 then 6000 else x2)"
  by (simp only: LD2450LoadConfig_x2_word Let_def sint_zone_byte sint_6000 if_distrib [of sint])

lemma LD2450LoadConfig_y2:
  "sint (cfg_y2 (ld2450_config (LD2450LoadConfig s))) =
     (let y1 = (if (uint (free_ea6 s 28) - 128) * 100 < 0 then 0
                else (uint (free_ea6 s 28) - 128) * 100);
          y2 = (if (uint (free_ea6 s 29) - 128) * 100 > 6000 then 6000
                else (uint (free_ea6 s 29) - 128) * 100)
      in if y2 \<le> y1 then 6000 else y2)"
  by (simp only: LD2450LoadConfig_y2_word Let_def sint_zone_byte sint_6000 if_distrib [of sint])

lemma LD2450LoadConfig_timeout:
  "cfg_timeout (ld2450_config (LD2450LoadConfig s)) =
     (if free_ea6 s 25 = 0 then 5 else free_ea6 s 25)"
  by (simp add: LD2450LoadConfig_def Let_def LD2450_DEFAULT_TIMEOUT_def)

lemma LD2450LoadConfig_ordered:
  assumes "uint (free_ea6 s 26) < 188" and "uint (free_ea6 s 28) < 188"
  shows "sint (cfg_x1 (ld2450_config (LD2450LoadConfig s)))
           < sint (cfg_x2 (ld2450_config (LD2450LoadConfig s))) \<and>
         sint (cfg_y1 (ld2450_config (LD2450LoadConfig s)))
           < sint (cfg_y2 (ld2450_config (LD2450LoadConfig s)))"
  using assms
  by (simp add: LD2450LoadConfig_x1 LD2450LoadConfig_x2 LD2450LoadConfig_y1 LD2450LoadConfig_y2
      Let_def)

lemma LD2450LoadConfig_degenerate:
  assumes "uint (free_ea6 s 27) \<le> uint (free_ea6 s 26)"
  shows "sint (cfg_x2 (ld2450_config (LD2450LoadConfig s))) = 6000"
  using assms
  by (simp add: LD2450LoadConfig_x2 Let_def)

subsection \<open>Commands\<close>

text \<open>
  The commands that load after saving, and the two that do not, on the inputs where the
  result is the same.
\<close>

lemma LD2450LoadConfig_idem:
  "LD2450LoadConfig (LD2450LoadConfig s) = LD2450LoadConfig s"
  by (simp add: LD2450LoadConfig_def Let_def)

lemma CmndLD2450Zone_reloaded:
  "ld2450_config (LD2450LoadConfig (CmndLD2450Zone (Some tokens) s)) =
     ld2450_config (CmndLD2450Zone (Some tokens) s)"
  by (simp add: CmndLD2450Zone_def LD2450LoadConfig_idem)

lemma CmndLD2450Dist_reloaded:
  "ld2450_config (LD2450LoadConfig (CmndLD2450Dist (Some tokens) s)) =
     ld2450_config (CmndLD2450Dist (Some tokens) s)"
  by (simp add: CmndLD2450Dist_def LD2450LoadConfig_idem Let_def)

lemma CmndLD2450Reset_reloaded:
  assumes "cfg_timeout (ld2450_config s) \<noteq> 0"
  shows "ld2450_config (LD2450LoadConfig (CmndLD2450Reset s)) = ld2450_config (CmndLD2450Reset s)"
  using assms
  by (simp add: CmndLD2450Reset_def LD2450SaveConfig_def LD2450LoadConfig_def Let_def
      LD2450_DIST_MAX_def LD2450_DEFAULT_TIMEOUT_def signed_divide_int_def)

lemma CmndLD2450Timeout_reloaded:
  assumes "0 < sint payload" and "(ucast payload :: 8 word) \<noteq> 0"
    and "ld2450_config (LD2450LoadConfig (LD2450SaveConfig s)) = ld2450_config s"
  shows "ld2450_config (LD2450LoadConfig (CmndLD2450Timeout payload s)) =
           ld2450_config (CmndLD2450Timeout payload s)"
proof -
  let ?s1 = "s\<lparr>ld2450_config := (ld2450_config s)\<lparr>cfg_timeout := ucast payload\<rparr>\<rparr>"
  have "ld2450_config (LD2450LoadConfig (LD2450SaveConfig ?s1)) =
          (ld2450_config (LD2450LoadConfig (LD2450SaveConfig s)))\<lparr>cfg_timeout := ucast payload\<rparr>"
    using assms(2)
    by (simp add: LD2450SaveConfig_def LD2450LoadConfig_def Let_def)
  with assms show ?thesis
    by (simp add: CmndLD2450Timeout_def LD2450SaveConfig_def)
qed

text \<open>
  The zone command stores whatever it is given: \<open>ld2450_zone 12700,0,0,0\<close> leaves the
  zone of claim C2, with \<open>x1 = 12700\<close> above \<open>x2 = 6000\<close>, in memory and in the settings.
\<close>

lemma CmndLD2450Zone_inverted_zone:
  "sint (cfg_x1 (ld2450_config (CmndLD2450Zone (Some [12700, 0, 0, 0])
                                  (LD2450Init (ld2450_boot (\<lambda>i. 0)))))) = 12700 \<and>
   sint (cfg_x2 (ld2450_config (CmndLD2450Zone (Some [12700, 0, 0, 0])
                                  (LD2450Init (ld2450_boot (\<lambda>i. 0)))))) = 6000 \<and>
   free_ea6 (CmndLD2450Zone (Some [12700, 0, 0, 0]) (LD2450Init (ld2450_boot (\<lambda>i. 0)))) 26 = 255"
  by (simp add: CmndLD2450Zone_def LD2450SaveConfig_def LD2450LoadConfig_def LD2450Init_def
      ld2450_boot_def LD2450_DIST_MAX_def LD2450_DEFAULT_TIMEOUT_def Let_def signed_divide_int_def)

text \<open>
  Claim C7 says that after every set command the configuration in memory is the result of
  loading the bytes just saved. \<open>CmndLD2450Timeout\<close> saves and does not load: with the
  payload 256 the timeout in memory and the saved byte are 0, and loading that byte gives 5.
\<close>

theorem CmndLD2450Timeout_256_not_validated:
  "cfg_timeout (ld2450_config (CmndLD2450Timeout 256 (LD2450Init (ld2450_boot (\<lambda>i. 0))))) = 0 \<and>
   free_ea6 (CmndLD2450Timeout 256 (LD2450Init (ld2450_boot (\<lambda>i. 0)))) 25 = 0 \<and>
   cfg_timeout (ld2450_config (LD2450LoadConfig
     (CmndLD2450Timeout 256 (LD2450Init (ld2450_boot (\<lambda>i. 0)))))) = 5 \<and>
   ld2450_config (LD2450LoadConfig (CmndLD2450Timeout 256 (LD2450Init (ld2450_boot (\<lambda>i. 0)))))
     \<noteq> ld2450_config (CmndLD2450Timeout 256 (LD2450Init (ld2450_boot (\<lambda>i. 0))))"
proof -
  let ?s = "CmndLD2450Timeout 256 (LD2450Init (ld2450_boot (\<lambda>i. 0)))"
  have a: "cfg_timeout (ld2450_config ?s) = 0"
    by (simp add: CmndLD2450Timeout_def LD2450SaveConfig_def Let_def)
  have b: "free_ea6 ?s 25 = 0"
    by (simp add: CmndLD2450Timeout_def LD2450SaveConfig_def Let_def)
  have c: "cfg_timeout (ld2450_config (LD2450LoadConfig ?s)) = 5"
    by (simp add: LD2450LoadConfig_timeout b)
  from a c have "ld2450_config (LD2450LoadConfig ?s) \<noteq> ld2450_config ?s"
    by auto
  with a b c show ?thesis by simp
qed

subsection \<open>Presence query\<close>

lemma LD2450GetDetectionStatus_iff:
  "LD2450GetDetectionStatus delay now s \<longleftrightarrow>
     sts_timestamp (ld2450_status s) \<noteq> 0 \<and>
     unat now < (unat (sts_timestamp (ld2450_status s)) + unat (requested_timeout delay s)) mod 2 ^ 32"
proof -
  have "unat (sts_timestamp (ld2450_status s) + requested_timeout delay s) =
      (unat (sts_timestamp (ld2450_status s)) + unat (requested_timeout delay s)) mod 2 ^ LENGTH(32)"
    by (rule unat_word_ariths)
  then show ?thesis
    by (simp add: LD2450GetDetectionStatus_def requested_timeout_def Let_def word_less_nat_alt)
qed

lemma LD2450DataMessage_timestamp:
  assumes "ld2450_wf s" and "rcv_idx_body (ld2450_received s) = 30"
  shows "\<exists>s'. LD2450DataMessage now s = Some s' \<and>
           sts_timestamp (ld2450_status s') =
             (if 0 < unat (sts_counter (ld2450_status s')) then now
              else sts_timestamp (ld2450_status s))"
proof -
  from assms(2) have "unat (rcv_idx_body (ld2450_received s)) \<le> 32" by simp
  from LD2450DataMessage_fields [OF assms(1) this, of now] show ?thesis by blast
qed

lemma example_seen_simps:
  "sts_timestamp (ld2450_status (example_seen t)) = t"
  "requested_timeout 0 (example_seen t) = 5"
  by (simp_all add: example_seen_def example_idle_def ld2450_boot_def requested_timeout_def
      LD2450_DEFAULT_TIMEOUT_def)

text \<open>
  Claim C6, as the code has it. The query is true exactly when the detection timestamp is
  not 0 and \<open>(timestamp + timeout) mod 2 ^ 32 > now\<close>, all three being unsigned 32-bit
  numbers and a requested timeout of 0 or \<open>UINT32_MAX\<close> standing for the configured one.
  When \<open>timestamp + timeout\<close> is below \<open>2 ^ 32\<close> this is \<open>timestamp + timeout > now\<close>. A
  timestamp 0 always reads false. So with a timestamp \<open>t0\<close> that is not 0 and
  \<open>t0 + T < 2 ^ 32\<close>, the query reads true at every time in \<open>[t0, t0 + T)\<close> and false at
  \<open>t0 + T\<close> and beyond. Decoding a frame at the time \<open>t0\<close> sets the timestamp to \<open>t0\<close> when a
  target is in the zone and leaves it as it was otherwise.
\<close>

theorem presence_query_modulo:
  "(LD2450GetDetectionStatus delay now s \<longleftrightarrow>
      sts_timestamp (ld2450_status s) \<noteq> 0 \<and>
      unat now < (unat (sts_timestamp (ld2450_status s)) + unat (requested_timeout delay s)) mod 2 ^ 32) \<and>
   (unat (sts_timestamp (ld2450_status s)) + unat (requested_timeout delay s) < 2 ^ 32 \<longrightarrow>
      (LD2450GetDetectionStatus delay now s \<longleftrightarrow>
         sts_timestamp (ld2450_status s) \<noteq> 0 \<and>
         unat now < unat (sts_timestamp (ld2450_status s)) + unat (requested_timeout delay s))) \<and>
   (sts_timestamp (ld2450_status s) = 0 \<longrightarrow> \<not> LD2450GetDetectionStatus delay now s) \<and>
   (sts_timestamp (ld2450_status s) \<noteq> 0 \<and>
    unat (sts_timestamp (ld2450_status s)) + unat (requested_timeout delay s) < 2 ^ 32 \<longrightarrow>
      (unat (sts_timestamp (ld2450_status s)) \<le> unat now \<and>
       unat now < unat (sts_timestamp (ld2450_status s)) + unat (requested_timeout delay s)
         \<longrightarrow> LD2450GetDetectionStatus delay now s) \<and>
      (unat (sts_timestamp (ld2450_status s)) + unat (requested_timeout delay s) \<le> unat now
         \<longrightarrow> \<not> LD2450GetDetectionStatus delay now s)) \<and>
   (ld2450_wf s \<and> rcv_idx_body (ld2450_received s) = 30 \<longrightarrow>
      (\<exists>s'. LD2450DataMessage t0 s = Some s' \<and>
         sts_timestamp (ld2450_status s') =
           (if 0 < unat (sts_counter (ld2450_status s')) then t0
            else sts_timestamp (ld2450_status s))))"
  using LD2450DataMessage_timestamp [of s t0]
  by (simp add: LD2450GetDetectionStatus_iff)

theorem presence_query_modulo_witness:
  "LD2450GetDetectionStatus 0 1000 (example_seen 1000) \<and>
   LD2450GetDetectionStatus 0 1004 (example_seen 1000) \<and>
   \<not> LD2450GetDetectionStatus 0 1005 (example_seen 1000) \<and>
   \<not> LD2450GetDetectionStatus 0 1002 (example_seen 0) \<and>
   (\<exists>s'. LD2450DataMessage 1000 example_state = Some s' \<and>
      sts_timestamp (ld2450_status s') = 1000)"
proof -
  have a: "LD2450GetDetectionStatus 0 1000 (example_seen 1000)"
    using presence_query_modulo [of 0 1000 "example_seen 1000" 0]
    by (simp add: example_seen_simps)
  have b: "LD2450GetDetectionStatus 0 1004 (example_seen 1000)"
    using presence_query_modulo [of 0 1004 "example_seen 1000" 0]
    by (simp add: example_seen_simps)
  have c: "\<not> LD2450GetDetectionStatus 0 1005 (example_seen 1000)"
    using presence_query_modulo [of 0 1005 "example_seen 1000" 0]
    by (simp add: example_seen_simps)
  have d: "\<not> LD2450GetDetectionStatus 0 1002 (example_seen 0)"
    using presence_query_modulo [of 0 1002 "example_seen 0" 0]
    by (simp add: example_seen_simps)
  from presence_query_modulo [of 0 0 example_state 1000]
    ld2450_wf_example_state idx_example_state
  obtain s' where run: "LD2450DataMessage 1000 example_state = Some s'"
    and ts: "sts_timestamp (ld2450_status s') =
           (if 0 < unat (sts_counter (ld2450_status s')) then 1000
            else sts_timestamp (ld2450_status example_state))"
    by blast
  from example_decode [of 1000] run have "sts_counter (ld2450_status s') = 1"
    by simp
  with ts have "sts_timestamp (ld2450_status s') = 1000"
    by simp
  with run have e: "\<exists>s'. LD2450DataMessage 1000 example_state = Some s' \<and>
      sts_timestamp (ld2450_status s') = 1000"
    by simp
  from a b c d e show ?thesis by simp
qed

text \<open>
  Claim C6 as it is stated, with the sum taken in the integers, fails where the 32-bit sum
  wraps around: with the timestamp 1000 and the requested timeout \<open>0xFFFFFFFE\<close> the query
  is false at the time 1000 although \<open>1000 + 4294967294 > 1000\<close>, and with the timestamp \<open>0xFFFFFFFD\<close>
  and the configured timeout 5 it is false at the very time of the detection. It also fails
  for a detection at the time 0: the example frame decoded at \<open>LocalTime () = 0\<close> has one
  target in the zone, and the query reads false at once.
\<close>

theorem presence_query_counterexample:
  "(\<not> LD2450GetDetectionStatus 0xFFFFFFFE 1000 (example_seen 1000) \<and>
    sts_timestamp (ld2450_status (example_seen 1000)) \<noteq> 0 \<and>
    unat (1000 :: 32 word) < unat (sts_timestamp (ld2450_status (example_seen 1000)))
                           + unat (requested_timeout 0xFFFFFFFE (example_seen 1000))) \<and>
   (\<not> LD2450GetDetectionStatus 0 0xFFFFFFFD (example_seen 0xFFFFFFFD) \<and>
    sts_timestamp (ld2450_status (example_seen 0xFFFFFFFD)) \<noteq> 0 \<and>
    unat (0xFFFFFFFD :: 32 word) < unat (sts_timestamp (ld2450_status (example_seen 0xFFFFFFFD)))
                           + unat (requested_timeout 0 (example_seen 0xFFFFFFFD))) \<and>
   (sts_counter (ld2450_status (the (LD2450DataMessage 0 example_state))) = 1 \<and>
    \<not> LD2450GetDetectionStatus 0 0 (the (LD2450DataMessage 0 example_state)))"
proof -
  have a: "\<not> LD2450GetDetectionStatus 0xFFFFFFFE 1000 (example_seen 1000) \<and>
    sts_timestamp (ld2450_status (example_seen 1000)) \<noteq> 0 \<and>
    unat (1000 :: 32 word) < unat (sts_timestamp (ld2450_status (example_seen 1000)))
                           + unat (requested_timeout 0xFFFFFFFE (example_seen 1000))"
    by (simp add: LD2450GetDetectionStatus_def example_seen_def example_idle_def ld2450_boot_def
      requested_timeout_def LD2450_DEFAULT_TIMEOUT_def)
  have b: "\<not> LD2450GetDetectionStatus 0 0xFFFFFFFD (example_seen 0xFFFFFFFD) \<and>
    sts_timestamp (ld2450_status (example_seen 0xFFFFFFFD)) \<noteq> 0 \<and>
    unat (0xFFFFFFFD :: 32 word) < unat (sts_timestamp (ld2450_status (example_seen 0xFFFFFFFD)))
                           + unat (requested_timeout 0 (example_seen 0xFFFFFFFD))"
    by (simp add: LD2450GetDetectionStatus_def example_seen_def example_idle_def ld2450_boot_def
      requested_timeout_def LD2450_DEFAULT_TIMEOUT_def)
  from example_decode [of 0] obtain s' where run: "LD2450DataMessage 0 example_state = Some s'"
    and cnt: "sts_counter (ld2450_status s') = 1" and ts: "sts_timestamp (ld2450_status s') = 0"
    by blast
  have c: "sts_counter (ld2450_status (the (LD2450DataMessage 0 example_state))) = 1 \<and>
    \<not> LD2450GetDetectionStatus 0 0 (the (LD2450DataMessage 0 example_state))"
    by (simp add: run cnt ts LD2450GetDetectionStatus_def)
  from a b c show ?thesis by blast
qed

subsection \<open>Frame assembler\<close>

lemma list4_cases:
  assumes "length l = 4"
  obtains a b c d where "l = [a, b, c, d]"
proof -
  from assms obtain a b c d where "l = [a, b, c, d]"
    by (cases l; cases "tl l"; cases "tl (tl l)"; cases "tl (tl (tl l))") auto
  then show ?thesis by (rule that)
qed

lemma read_32_header:
  "\<exists>w. read_32 [a, b, c, d] 0 = Some w \<and> (w = 0x0003ffaa \<longleftrightarrow> [a, b, c, d] = header_magic)"
proof -
  let ?n = "unat a + 256 * (unat b + 256 * (unat c + 256 * unat d))"
  have n: "?n < 2 ^ 32"
    using unat_8_bound [of a] unat_8_bound [of b] unat_8_bound [of c] unat_8_bound [of d]
    by simp
  have r: "read_32 [a, b, c, d] 0 = Some (word_of_nat ?n)"
    by (simp add: read_32_def arr_read_def)
  have "unat (word_of_nat ?n :: 32 word) = ?n mod 2 ^ LENGTH(32)"
    by (rule unat_of_nat)
  with n have u: "unat (word_of_nat ?n :: 32 word) = ?n" by simp
  have "(word_of_nat ?n :: 32 word) = 0x0003ffaa \<longleftrightarrow>
      unat (word_of_nat ?n :: 32 word) = unat (0x0003ffaa :: 32 word)"
    by (rule word_unat_eq_iff)
  also have "\<dots> \<longleftrightarrow> ?n = 170 + 256 * (255 + 256 * (3 + 256 * 0))"
    by (simp only: u) simp
  also have "\<dots> \<longleftrightarrow> unat a = 170 \<and> unat b = 255 \<and> unat c = 3 \<and> unat d = 0"
    by (rule bytes4_eq)
  also have "\<dots> \<longleftrightarrow> [a, b, c, d] = header_magic"
    by (simp add: header_magic_def word_unat_eq_iff)
  finally show ?thesis using r by blast
qed

lemma read_16_footer:
  "\<exists>w. read_16 [a, b, c, d] 2 = Some w \<and> (w = 0xcc55 \<longleftrightarrow> [c, d] = footer_magic)"
proof -
  let ?n = "unat c + 256 * unat d"
  have n: "?n < 2 ^ 16"
    using unat_8_bound [of c] unat_8_bound [of d] by simp
  have r: "read_16 [a, b, c, d] 2 = Some (word_of_nat ?n)"
    by (simp add: read_16_def arr_read_def)
  have "unat (word_of_nat ?n :: 16 word) = ?n mod 2 ^ LENGTH(16)"
    by (rule unat_of_nat)
  with n have u: "unat (word_of_nat ?n :: 16 word) = ?n" by simp
  have "(word_of_nat ?n :: 16 word) = 0xcc55 \<longleftrightarrow>
      unat (word_of_nat ?n :: 16 word) = unat (0xcc55 :: 16 word)"
    by (rule word_unat_eq_iff)
  also have "\<dots> \<longleftrightarrow> ?n = 85 + 256 * 204"
    by (simp only: u) simp
  also have "\<dots> \<longleftrightarrow> unat c = 85 \<and> unat d = 204"
    by (rule bytes2_eq)
  also have "\<dots> \<longleftrightarrow> [c, d] = footer_magic"
    by (simp add: footer_magic_def word_unat_eq_iff)
  finally show ?thesis using r by blast
qed


lemma LD2450Append_effect:
  assumes "length (rcv_arr_body r) = 32" and "length (rcv_arr_last r) = 4"
  shows "LD2450Append rx r =
           Some (r\<lparr>rcv_arr_body :=
                     (if unat (rcv_idx_body r) < 32
                      then (rcv_arr_body r)[unat (rcv_idx_body r) := recv_data rx]
                      else rcv_arr_body r),
                   rcv_idx_body :=
                     (if unat (rcv_idx_body r) < 32 then rcv_idx_body r + 1 else rcv_idx_body r),
                   rcv_arr_last := tl (rcv_arr_last r) @ [recv_data rx],
                   rcv_timestamp := millis rx\<rparr>)"
proof -
  from assms(2) obtain a b c d where l: "rcv_arr_last r = [a, b, c, d]"
    by (rule list4_cases)
  show ?thesis
    using assms(1)
    by (simp add: LD2450Append_def l arr_read_def arr_write_def LD2450_MSG_SIZE_MAX_def)
qed

lemma LD2450ReceiveByte_dispatch:
  assumes up: "unat (uptime rx) > 10"
    and app: "LD2450Append rx (ld2450_received s) = Some r"
    and body: "length (rcv_arr_body r) = 32" and last: "length (rcv_arr_last r) = 4"
  shows "LD2450ReceiveByte rx s =
           (if rcv_arr_last r = header_magic
            then Some (s\<lparr>ld2450_received :=
                          r\<lparr>rcv_arr_body := header_magic @ drop 4 (rcv_arr_body r),
                            rcv_idx_body := 4\<rparr>\<rparr>)
            else if rcv_idx_body r = 30 \<and> drop 2 (rcv_arr_last r) = footer_magic
            then LD2450DataMessage (LocalTime rx) (s\<lparr>ld2450_received := r\<rparr>)
            else Some (s\<lparr>ld2450_received := r\<rparr>))"
proof -
  from last obtain a b c d where l: "rcv_arr_last r = [a, b, c, d]"
    by (rule list4_cases)
  from read_32_header [of a b c d] obtain w where
    w: "read_32 [a, b, c, d] 0 = Some w" "w = 0x0003ffaa \<longleftrightarrow> [a, b, c, d] = header_magic"
    by blast
  from read_16_footer [of a b c d] obtain v where
    v: "read_16 [a, b, c, d] 2 = Some v" "v = 0xcc55 \<longleftrightarrow> [c, d] = footer_magic"
    by blast
  have m: "memcpy (rcv_arr_body r) [a, b, c, d] 4 = Some ([a, b, c, d] @ drop 4 (rcv_arr_body r))"
    using body by (simp add: memcpy_def)
  have step: "LD2450ReceiveByte rx s =
           (if w = 0x0003ffaa
            then Some (s\<lparr>ld2450_received :=
                          r\<lparr>rcv_arr_body := [a, b, c, d] @ drop 4 (rcv_arr_body r),
                            rcv_idx_body := 4\<rparr>\<rparr>)
            else if rcv_idx_body r = 30
            then (if v = 0xcc55
                  then LD2450DataMessage (LocalTime rx) (s\<lparr>ld2450_received := r\<rparr>)
                  else Some (s\<lparr>ld2450_received := r\<rparr>))
            else Some (s\<lparr>ld2450_received := r\<rparr>))"
    using up
    by (simp add: LD2450ReceiveByte_def app l w(1) v(1) m LD2450_START_DELAY_def Let_def)
  have d: "drop 2 (rcv_arr_last r) = [c, d]"
    by (simp add: l)
  show ?thesis
    unfolding step d using w(2) v(2) by (auto simp: l)
qed

lemma LD2450Append_wf:
  assumes "ld2450_wf s"
  shows "\<exists>r. LD2450Append rx (ld2450_received s) = Some r \<and>
           length (rcv_arr_body r) = 32 \<and> length (rcv_arr_last r) = 4 \<and>
           rcv_arr_last r = tl (rcv_arr_last (ld2450_received s)) @ [recv_data rx] \<and>
           rcv_arr_body r =
             (if unat (rcv_idx_body (ld2450_received s)) < 32
              then (rcv_arr_body (ld2450_received s))
                     [unat (rcv_idx_body (ld2450_received s)) := recv_data rx]
              else rcv_arr_body (ld2450_received s)) \<and>
           rcv_idx_body r =
             (if unat (rcv_idx_body (ld2450_received s)) < 32
              then rcv_idx_body (ld2450_received s) + 1
              else rcv_idx_body (ld2450_received s)) \<and>
           rcv_timestamp r = millis rx"
proof -
  from assms have b: "length (rcv_arr_body (ld2450_received s)) = 32"
    and l: "length (rcv_arr_last (ld2450_received s)) = 4"
    by (simp_all add: ld2450_wf_def LD2450_MSG_SIZE_MAX_def)
  show ?thesis
    using b l by (simp add: LD2450Append_effect [OF b l])
qed

lemma LD2450ReceiveByte_ignored:
  "unat (uptime rx) \<le> 10 \<Longrightarrow> LD2450ReceiveByte rx s = Some s"
  by (simp add: LD2450ReceiveByte_def LD2450_START_DELAY_def)

lemma LD2450ReceiveByte_wf:
  assumes "ld2450_wf s"
  shows "\<exists>s'. LD2450ReceiveByte rx s = Some s' \<and> ld2450_wf s'"
proof (cases "unat (uptime rx) > 10")
  case False
  then show ?thesis using assms by (simp add: LD2450ReceiveByte_ignored)
next
  case True
  from LD2450Append_wf [OF assms, of rx] obtain r where
    app: "LD2450Append rx (ld2450_received s) = Some r"
    and b: "length (rcv_arr_body r) = 32" and l: "length (rcv_arr_last r) = 4"
    and i: "rcv_idx_body r =
             (if unat (rcv_idx_body (ld2450_received s)) < 32
              then rcv_idx_body (ld2450_received s) + 1
              else rcv_idx_body (ld2450_received s))"
    by blast
  note d = LD2450ReceiveByte_dispatch [OF True app b l]
  let ?s1 = "s\<lparr>ld2450_received := r\<rparr>"
  have wf1: "ld2450_wf ?s1"
    using assms b l by (simp add: ld2450_wf_def LD2450_MSG_SIZE_MAX_def)
  show ?thesis
  proof (cases "rcv_arr_last r = header_magic")
    case True
    then show ?thesis
      using assms b l by (simp add: d ld2450_wf_def LD2450_MSG_SIZE_MAX_def header_magic_def)
  next
    case False
    show ?thesis
    proof (cases "rcv_idx_body r = 30 \<and> drop 2 (rcv_arr_last r) = footer_magic")
      case True
      then have "unat (rcv_idx_body (ld2450_received ?s1)) \<le> 32" by simp
      from LD2450DataMessage_fields [OF wf1 this, of "LocalTime rx"]
      obtain s' t0 t1 t2 where run: "LD2450DataMessage (LocalTime rx) ?s1 = Some s'"
        and tg: "ld2450_target s' = [t0, t1, t2]"
        and rc: "ld2450_received s' = (ld2450_received ?s1)\<lparr>rcv_idx_body := 0\<rparr>"
        by blast
      have "ld2450_wf s'"
        using b l by (simp add: ld2450_wf_def tg rc LD2450_MSG_SIZE_MAX_def LD2450_TARGET_MAX_def)
      with run True False show ?thesis by (simp add: d)
    next
      case no: False
      with False wf1 show ?thesis by (auto simp: d)
    qed
  qed
qed

lemma LD2450ReceiveLoop_wf:
  "ld2450_wf s \<Longrightarrow> \<exists>s'. LD2450ReceiveLoop rxs s = Some s' \<and> ld2450_wf s'"
proof (induction rxs arbitrary: s)
  case Nil
  then show ?case by simp
next
  case (Cons rx rxs)
  from LD2450ReceiveByte_wf [OF Cons.prems, of rx] obtain s1 where
    "LD2450ReceiveByte rx s = Some s1" "ld2450_wf s1" by blast
  with Cons.IH [of s1] show ?case by simp
qed

lemma LD2450ReceiveLoop_append:
  "LD2450ReceiveLoop (rxs @ [rx]) s =
     (case LD2450ReceiveLoop rxs s of None \<Rightarrow> None | Some s1 \<Rightarrow> LD2450ReceiveByte rx s1)"
  by (induction rxs arbitrary: s) (auto split: option.split)

lemma LD2450ReceiveByte_header:
  assumes "ld2450_wf s" and "unat (uptime rx) > 10"
  shows "\<exists>s'. LD2450ReceiveByte rx s = Some s' \<and>
           (rcv_arr_last (ld2450_received s') = header_magic \<longrightarrow>
              rcv_idx_body (ld2450_received s') = 4 \<and>
              take (unat (rcv_idx_body (ld2450_received s'))) (rcv_arr_body (ld2450_received s'))
                = header_magic)"
proof -
  from LD2450Append_wf [OF assms(1), of rx] obtain r where
    app: "LD2450Append rx (ld2450_received s) = Some r"
    and b: "length (rcv_arr_body r) = 32" and l: "length (rcv_arr_last r) = 4"
    by blast
  note d = LD2450ReceiveByte_dispatch [OF assms(2) app b l]
  let ?s1 = "s\<lparr>ld2450_received := r\<rparr>"
  have wf1: "ld2450_wf ?s1"
    using assms(1) b l by (simp add: ld2450_wf_def LD2450_MSG_SIZE_MAX_def)
  show ?thesis
  proof (cases "rcv_arr_last r = header_magic")
    case True
    have "length header_magic = 4" by (simp add: header_magic_def)
    with True show ?thesis by (simp add: d)
  next
    case False
    show ?thesis
    proof (cases "rcv_idx_body r = 30 \<and> drop 2 (rcv_arr_last r) = footer_magic")
      case True
      then have "unat (rcv_idx_body (ld2450_received ?s1)) \<le> 32" by simp
      from LD2450DataMessage_fields [OF wf1 this, of "LocalTime rx"]
      obtain s' where run: "LD2450DataMessage (LocalTime rx) ?s1 = Some s'"
        and rc: "ld2450_received s' = (ld2450_received ?s1)\<lparr>rcv_idx_body := 0\<rparr>"
        by blast
      from False rc have "rcv_arr_last (ld2450_received s') \<noteq> header_magic" by simp
      with run True False show ?thesis by (simp add: d)
    next
      case no: False
      with False show ?thesis by (auto simp: d)
    qed
  qed
qed

text \<open>
  Claim C3. Whatever was received before and whatever the message body held, right after
  a byte whose arrival makes the last four bytes equal to the header \<open>AA FF 03 00\<close>, the
  message body holds exactly these four bytes: its length is 4 and its content is the header.
\<close>

theorem header_resets_message_buffer:
  assumes "ld2450_wf s" and "unat (uptime rx) > 10"
  shows "\<exists>s'. LD2450ReceiveLoop (rxs @ [rx]) s = Some s' \<and>
           (rcv_arr_last (ld2450_received s') = header_magic \<longrightarrow>
              rcv_idx_body (ld2450_received s') = 4 \<and>
              take (unat (rcv_idx_body (ld2450_received s'))) (rcv_arr_body (ld2450_received s'))
                = header_magic)"
proof -
  from LD2450ReceiveLoop_wf [OF assms(1), of rxs] obtain s1 where
    run: "LD2450ReceiveLoop rxs s = Some s1" and wf1: "ld2450_wf s1" by blast
  from LD2450ReceiveByte_header [OF wf1 assms(2)] run show ?thesis
    by (simp add: LD2450ReceiveLoop_append)
qed

text \<open>
  Claim C4. For a received byte after which the last four bytes are not the header, with
  \<open>r\<close> the reception state once the byte is appended: the frame is decoded (which is seen
  in the log, where \<open>LD2450LogMessage\<close> writes the frame) exactly when the message body holds
  30 bytes and the last two bytes are the footer \<open>55 CC\<close>; the new state is then the result
  of the decoding, with the length of the message body back to 0. Otherwise the byte is
  only appended.
\<close>

theorem footer_hands_frame_to_decoder:
  assumes "ld2450_wf s" and "unat (uptime rx) > 10"
    and "LD2450Append rx (ld2450_received s) = Some r"
    and "rcv_arr_last r \<noteq> header_magic"
  shows "\<exists>s'. LD2450ReceiveByte rx s = Some s' \<and>
           (log_lines s' \<noteq> log_lines s \<longleftrightarrow>
              rcv_idx_body r = 30 \<and> drop 2 (rcv_arr_last r) = footer_magic) \<and>
           (rcv_idx_body r = 30 \<and> drop 2 (rcv_arr_last r) = footer_magic \<longrightarrow>
              LD2450DataMessage (LocalTime rx) (s\<lparr>ld2450_received := r\<rparr>) = Some s' \<and>
              rcv_idx_body (ld2450_received s') = 0) \<and>
           (\<not> (rcv_idx_body r = 30 \<and> drop 2 (rcv_arr_last r) = footer_magic) \<longrightarrow>
              s' = s\<lparr>ld2450_received := r\<rparr>)"
proof -
  from LD2450Append_wf [OF assms(1), of rx] obtain r' where
    "LD2450Append rx (ld2450_received s) = Some r'"
    "length (rcv_arr_body r') = 32" "length (rcv_arr_last r') = 4"
    by blast
  with assms(3) have b: "length (rcv_arr_body r) = 32" and l: "length (rcv_arr_last r) = 4"
    by simp_all
  note d = LD2450ReceiveByte_dispatch [OF assms(2,3) b l]
  let ?s1 = "s\<lparr>ld2450_received := r\<rparr>"
  have wf1: "ld2450_wf ?s1"
    using assms(1) b l by (simp add: ld2450_wf_def LD2450_MSG_SIZE_MAX_def)
  show ?thesis
  proof (cases "rcv_idx_body r = 30 \<and> drop 2 (rcv_arr_last r) = footer_magic")
    case True
    then have "unat (rcv_idx_body (ld2450_received ?s1)) \<le> 32" by simp
    from LD2450DataMessage_fields [OF wf1 this, of "LocalTime rx"]
    obtain s' msg where run: "LD2450DataMessage (LocalTime rx) ?s1 = Some s'"
      and rc: "ld2450_received s' = (ld2450_received ?s1)\<lparr>rcv_idx_body := 0\<rparr>"
      and lg: "log_lines s' = log_lines ?s1 @ [''HLK: recv'' @ msg]"
      by blast
    from lg have "log_lines s' \<noteq> log_lines s" by simp
    with run rc True assms(4) show ?thesis by (simp add: d)
  next
    case False
    with assms(4) show ?thesis by (auto simp: d)
  qed
qed

text \<open>
  Claim C9. A byte that does not complete a frame leaves the three targets, the counter and
  the detection timestamp (the whole status) as they were. A byte that completes a frame
  overwrites all three targets, each decoded from that frame.
\<close>

theorem targets_change_only_with_a_frame:
  assumes "ld2450_wf s"
  shows "\<exists>s'. LD2450ReceiveByte rx s = Some s' \<and>
           (\<not> completes_frame rx s \<longrightarrow>
              ld2450_target s' = ld2450_target s \<and> ld2450_status s' = ld2450_status s) \<and>
           (completes_frame rx s \<longrightarrow>
              (\<exists>r t0 t1 t2. LD2450Append rx (ld2450_received s) = Some r \<and>
                 ld2450_target s' = [t0, t1, t2] \<and>
                 slot_decoded (ld2450_config s) (rcv_arr_body r) 0 t0 \<and>
                 slot_decoded (ld2450_config s) (rcv_arr_body r) 1 t1 \<and>
                 slot_decoded (ld2450_config s) (rcv_arr_body r) 2 t2))"
proof (cases "unat (uptime rx) > 10")
  case False
  then show ?thesis
    by (simp add: LD2450ReceiveByte_ignored completes_frame_def LD2450_START_DELAY_def)
next
  case up: True
  from LD2450Append_wf [OF assms, of rx] obtain r where
    app: "LD2450Append rx (ld2450_received s) = Some r"
    and b: "length (rcv_arr_body r) = 32" and l: "length (rcv_arr_last r) = 4"
    by blast
  note d = LD2450ReceiveByte_dispatch [OF up app b l]
  let ?s1 = "s\<lparr>ld2450_received := r\<rparr>"
  have wf1: "ld2450_wf ?s1"
    using assms b l by (simp add: ld2450_wf_def LD2450_MSG_SIZE_MAX_def)
  have cf: "completes_frame rx s \<longleftrightarrow>
      rcv_idx_body r = 30 \<and> drop 2 (rcv_arr_last r) = footer_magic"
    using up by (simp add: completes_frame_def app LD2450_START_DELAY_def)
  show ?thesis
  proof (cases "completes_frame rx s")
    case True
    with cf have c: "rcv_idx_body r = 30" "drop 2 (rcv_arr_last r) = footer_magic" by simp_all
    from l c(2) have nh: "rcv_arr_last r \<noteq> header_magic"
      by (auto simp: header_magic_def footer_magic_def)
    from c have "unat (rcv_idx_body (ld2450_received ?s1)) \<le> 32" by simp
    from LD2450DataMessage_fields [OF wf1 this, of "LocalTime rx"]
    obtain s' t0 t1 t2 where run: "LD2450DataMessage (LocalTime rx) ?s1 = Some s'"
      and tg: "ld2450_target s' = [t0, t1, t2]"
      and dec: "slot_decoded (ld2450_config ?s1) (rcv_arr_body (ld2450_received ?s1)) 0 t0"
        "slot_decoded (ld2450_config ?s1) (rcv_arr_body (ld2450_received ?s1)) 1 t1"
        "slot_decoded (ld2450_config ?s1) (rcv_arr_body (ld2450_received ?s1)) 2 t2"
      by blast
    from run c nh have "LD2450ReceiveByte rx s = Some s'" by (simp add: d)
    with True app tg dec show ?thesis by simp
  next
    case False
    with cf show ?thesis by (auto simp: d)
  qed
qed

text \<open>
  Claim C10. Bytes received while the uptime is at most 10 seconds are read and ignored:
  the whole driver state, with the window, the message body and its length, the targets,
  the counter and the detection timestamp, is unchanged, so no frame is decoded.
\<close>

theorem startup_delay_ignores_bytes:
  assumes "\<forall>rx \<in> set rxs. unat (uptime rx) \<le> LD2450_START_DELAY"
  shows "LD2450ReceiveData rxs s = Some s \<and> LD2450ReceiveLoop rxs s = Some s"
proof -
  from assms have "LD2450ReceiveLoop rxs s = Some s"
    by (induction rxs) (simp_all add: LD2450ReceiveByte_ignored LD2450_START_DELAY_def)
  then show ?thesis by (simp add: LD2450ReceiveData_def)
qed

lemma unat_idx_succ:
  "unat (i :: 8 word) < 32 \<Longrightarrow> unat (i + 1) = unat i + 1"
  by (simp add: unat_word_ariths)

lemma overlong_step:
  assumes wf: "ld2450_wf s"
    and len: "30 \<le> unat (rcv_idx_body (ld2450_received s))"
    and nh: "headerless (rcv_arr_last (ld2450_received s)) [rx]"
  shows "\<exists>s'. LD2450ReceiveByte rx s = Some s' \<and> ld2450_wf s' \<and>
           30 \<le> unat (rcv_idx_body (ld2450_received s')) \<and>
           ld2450_target s' = ld2450_target s \<and>
           ld2450_status s' = ld2450_status s \<and>
           log_lines s' = log_lines s \<and>
           rcv_arr_last (ld2450_received s') =
             (if unat (uptime rx) > LD2450_START_DELAY
              then tl (rcv_arr_last (ld2450_received s)) @ [recv_data rx]
              else rcv_arr_last (ld2450_received s)) \<and>
           (32 \<le> unat (rcv_idx_body (ld2450_received s)) \<longrightarrow>
              rcv_arr_body (ld2450_received s') = rcv_arr_body (ld2450_received s) \<and>
              rcv_idx_body (ld2450_received s') = rcv_idx_body (ld2450_received s))"
proof (cases "unat (uptime rx) > 10")
  case False
  with wf len show ?thesis
    by (simp add: LD2450ReceiveByte_ignored LD2450_START_DELAY_def)
next
  case up: True
  from LD2450Append_wf [OF wf, of rx] obtain r where
    app: "LD2450Append rx (ld2450_received s) = Some r"
    and b: "length (rcv_arr_body r) = 32" and l: "length (rcv_arr_last r) = 4"
    and la: "rcv_arr_last r = tl (rcv_arr_last (ld2450_received s)) @ [recv_data rx]"
    and bo: "rcv_arr_body r =
             (if unat (rcv_idx_body (ld2450_received s)) < 32
              then (rcv_arr_body (ld2450_received s))
                     [unat (rcv_idx_body (ld2450_received s)) := recv_data rx]
              else rcv_arr_body (ld2450_received s))"
    and ix: "rcv_idx_body r =
             (if unat (rcv_idx_body (ld2450_received s)) < 32
              then rcv_idx_body (ld2450_received s) + 1
              else rcv_idx_body (ld2450_received s))"
    by blast
  note d = LD2450ReceiveByte_dispatch [OF up app b l]
  from nh up la have noh: "rcv_arr_last r \<noteq> header_magic"
    by (simp add: LD2450_START_DELAY_def)
  have big: "31 \<le> unat (rcv_idx_body r)"
    using len by (simp add: ix unat_idx_succ)
  then have n30: "rcv_idx_body r \<noteq> 30" by auto
  have wf1: "ld2450_wf (s\<lparr>ld2450_received := r\<rparr>)"
    using wf b l by (simp add: ld2450_wf_def LD2450_MSG_SIZE_MAX_def)
  have "LD2450ReceiveByte rx s = Some (s\<lparr>ld2450_received := r\<rparr>)"
    using noh n30 by (simp add: d)
  moreover have "32 \<le> unat (rcv_idx_body (ld2450_received s)) \<longrightarrow>
      rcv_arr_body r = rcv_arr_body (ld2450_received s) \<and>
      rcv_idx_body r = rcv_idx_body (ld2450_received s)"
    by (simp add: bo ix)
  ultimately show ?thesis
    using wf1 big la up by (simp add: LD2450_START_DELAY_def)
qed

lemma overlong_run:
  assumes "ld2450_wf s"
    and "30 \<le> unat (rcv_idx_body (ld2450_received s))"
    and "headerless (rcv_arr_last (ld2450_received s)) rxs"
  shows "\<exists>s'. LD2450ReceiveLoop rxs s = Some s' \<and>
           30 \<le> unat (rcv_idx_body (ld2450_received s')) \<and>
           ld2450_target s' = ld2450_target s \<and>
           ld2450_status s' = ld2450_status s \<and>
           log_lines s' = log_lines s \<and>
           (32 \<le> unat (rcv_idx_body (ld2450_received s)) \<longrightarrow>
              rcv_arr_body (ld2450_received s') = rcv_arr_body (ld2450_received s) \<and>
              rcv_idx_body (ld2450_received s') = rcv_idx_body (ld2450_received s))"
  using assms
proof (induction rxs arbitrary: s)
  case Nil
  then show ?case by simp
next
  case (Cons rx rxs)
  from Cons.prems(3) have h1: "headerless (rcv_arr_last (ld2450_received s)) [rx]"
    by (simp split: if_splits)
  from overlong_step [OF Cons.prems(1,2) h1] obtain s1 where
    st: "LD2450ReceiveByte rx s = Some s1" and wf1: "ld2450_wf s1"
    and len1: "30 \<le> unat (rcv_idx_body (ld2450_received s1))"
    and same: "ld2450_target s1 = ld2450_target s" "ld2450_status s1 = ld2450_status s"
      "log_lines s1 = log_lines s"
    and la: "rcv_arr_last (ld2450_received s1) =
             (if unat (uptime rx) > LD2450_START_DELAY
              then tl (rcv_arr_last (ld2450_received s)) @ [recv_data rx]
              else rcv_arr_last (ld2450_received s))"
    and full: "32 \<le> unat (rcv_idx_body (ld2450_received s)) \<longrightarrow>
              rcv_arr_body (ld2450_received s1) = rcv_arr_body (ld2450_received s) \<and>
              rcv_idx_body (ld2450_received s1) = rcv_idx_body (ld2450_received s)"
    by blast
  from Cons.prems(3) la have h2: "headerless (rcv_arr_last (ld2450_received s1)) rxs"
    by (simp split: if_splits)
  from Cons.IH [OF wf1 len1 h2] obtain s' where
    run: "LD2450ReceiveLoop rxs s1 = Some s'"
    and r: "30 \<le> unat (rcv_idx_body (ld2450_received s'))"
      "ld2450_target s' = ld2450_target s1" "ld2450_status s' = ld2450_status s1"
      "log_lines s' = log_lines s1"
      "32 \<le> unat (rcv_idx_body (ld2450_received s1)) \<longrightarrow>
              rcv_arr_body (ld2450_received s') = rcv_arr_body (ld2450_received s1) \<and>
              rcv_idx_body (ld2450_received s') = rcv_idx_body (ld2450_received s1)"
    by blast
  from st run have "LD2450ReceiveLoop (rx # rxs) s = Some s'" by simp
  with r same full show ?case by auto
qed

text \<open>
  Claim C8. Every run of the receive loop from a state whose arrays have their declared
  sizes returns, so no access was out of bounds (each write to the message body is at an
  index below 32), and the sizes are kept. Once the message body holds 30 bytes or more
  and as long as no header is seen, no frame is decoded: targets, status and log are
  unchanged and the length stays at 30 or more. Once the body is full (32), the further
  bytes are dropped: the body and its length do not change.
\<close>

theorem overlong_message_is_dropped:
  assumes "ld2450_wf s"
  shows "\<exists>s'. LD2450ReceiveLoop rxs s = Some s' \<and> ld2450_wf s' \<and>
           (30 \<le> unat (rcv_idx_body (ld2450_received s)) \<and>
            headerless (rcv_arr_last (ld2450_received s)) rxs \<longrightarrow>
              30 \<le> unat (rcv_idx_body (ld2450_received s')) \<and>
              ld2450_target s' = ld2450_target s \<and>
              ld2450_status s' = ld2450_status s \<and>
              log_lines s' = log_lines s) \<and>
           (32 \<le> unat (rcv_idx_body (ld2450_received s)) \<and>
            headerless (rcv_arr_last (ld2450_received s)) rxs \<longrightarrow>
              rcv_arr_body (ld2450_received s') = rcv_arr_body (ld2450_received s) \<and>
              rcv_idx_body (ld2450_received s') = rcv_idx_body (ld2450_received s))"
proof -
  from LD2450ReceiveLoop_wf [OF assms, of rxs] obtain s' where
    run: "LD2450ReceiveLoop rxs s = Some s'" and wf': "ld2450_wf s'" by blast
  show ?thesis
  proof (cases "30 \<le> unat (rcv_idx_body (ld2450_received s)) \<and>
            headerless (rcv_arr_last (ld2450_received s)) rxs")
    case True
    with overlong_run [OF assms, of rxs] run wf' show ?thesis by auto
  next
    case False
    with run wf' show ?thesis by auto
  qed
qed

subsection \<open>The example frame through the assembler\<close>

text \<open>
  The theorems on the frame assembler at the example inputs: a header after a stray byte,
  the last byte of the example frame, bytes after 30 and after 32 accumulated ones, a byte
  that completes no frame, and a frame received during the startup delay.
\<close>

lemma ld2450_wf_example_idle: "ld2450_wf example_idle"
  by (simp add: ld2450_wf_def example_idle_def ld2450_boot_def
      LD2450_MSG_SIZE_MAX_def LD2450_TARGET_MAX_def)

lemma example_header_window:
  "map_option (\<lambda>s'. rcv_arr_last (ld2450_received s'))
     (LD2450ReceiveLoop (map example_rx [0x07, 0xAA, 0xFF, 0x03] @ [example_rx 0x00]) example_idle)
   = Some header_magic"
  by (simp add: LD2450ReceiveByte_def LD2450Append_def arr_read_def arr_write_def read_32_def
      read_16_def memcpy_def example_rx_def example_idle_def ld2450_boot_def header_magic_def
      LD2450_START_DELAY_def LD2450_MSG_SIZE_MAX_def LD2450_TARGET_MAX_def Let_def)


lemma ld2450_wf_example_before: "ld2450_wf example_before"
  by (simp add: ld2450_wf_def example_before_def example_idle_def ld2450_boot_def
      example_frame_def LD2450_MSG_SIZE_MAX_def LD2450_TARGET_MAX_def)

lemma ld2450_wf_example_full: "ld2450_wf example_full"
  using ld2450_wf_example_state by (simp add: ld2450_wf_def example_full_def)

lemma uptime_example_rx: "unat (uptime (example_rx b)) > 10"
  by (simp add: example_rx_def)

lemma example_last_byte:
  "LD2450Append (example_rx 0xCC) (ld2450_received example_before) =
     Some (ld2450_received example_state)"
  "example_before\<lparr>ld2450_received := ld2450_received example_state\<rparr> = example_state"
  "rcv_arr_last (ld2450_received example_state) \<noteq> header_magic"
  "drop 2 (rcv_arr_last (ld2450_received example_state)) = footer_magic"
  by (simp_all add: LD2450Append_def arr_read_def arr_write_def example_rx_def
      example_before_def example_state_def example_frame_def header_magic_def footer_magic_def
      LD2450_MSG_SIZE_MAX_def)

theorem header_resets_message_buffer_witness:
  "ld2450_wf example_idle \<and> unat (uptime (example_rx 0x00)) > 10 \<and>
   (\<exists>s'. LD2450ReceiveLoop (map example_rx [0x07, 0xAA, 0xFF, 0x03] @ [example_rx 0x00])
            example_idle = Some s' \<and>
      rcv_arr_last (ld2450_received s') = header_magic \<and>
      rcv_idx_body (ld2450_received s') = 4 \<and>
      take (unat (rcv_idx_body (ld2450_received s'))) (rcv_arr_body (ld2450_received s'))
        = header_magic)"
proof -
  from header_resets_message_buffer [where s = example_idle and rx = "example_rx 0x00"
      and rxs = "map example_rx [0x07, 0xAA, 0xFF, 0x03]",
      OF ld2450_wf_example_idle uptime_example_rx]
  obtain s' where run: "LD2450ReceiveLoop (map example_rx [0x07, 0xAA, 0xFF, 0x03] @ [example_rx 0x00])
            example_idle = Some s'"
    and imp: "rcv_arr_last (ld2450_received s') = header_magic \<longrightarrow>
              rcv_idx_body (ld2450_received s') = 4 \<and>
              take (unat (rcv_idx_body (ld2450_received s'))) (rcv_arr_body (ld2450_received s'))
                = header_magic"
    by blast
  from example_header_window run have w: "rcv_arr_last (ld2450_received s') = header_magic"
    by simp
  with imp have "rcv_idx_body (ld2450_received s') = 4 \<and>
              take (unat (rcv_idx_body (ld2450_received s'))) (rcv_arr_body (ld2450_received s'))
                = header_magic"
    by (rule mp)
  with run w have "\<exists>s'. LD2450ReceiveLoop (map example_rx [0x07, 0xAA, 0xFF, 0x03] @ [example_rx 0x00])
            example_idle = Some s' \<and>
      rcv_arr_last (ld2450_received s') = header_magic \<and>
      rcv_idx_body (ld2450_received s') = 4 \<and>
      take (unat (rcv_idx_body (ld2450_received s'))) (rcv_arr_body (ld2450_received s'))
        = header_magic"
    by blast
  with ld2450_wf_example_idle uptime_example_rx show ?thesis by blast
qed

theorem footer_hands_frame_to_decoder_witness:
  "ld2450_wf example_before \<and> unat (uptime (example_rx 0xCC)) > 10 \<and>
   LD2450Append (example_rx 0xCC) (ld2450_received example_before) =
     Some (ld2450_received example_state) \<and>
   rcv_arr_last (ld2450_received example_state) \<noteq> header_magic \<and>
   (\<exists>s'. LD2450ReceiveByte (example_rx 0xCC) example_before = Some s' \<and>
      log_lines s' \<noteq> log_lines example_before \<and>
      LD2450DataMessage 1000 example_state = Some s' \<and>
      rcv_idx_body (ld2450_received s') = 0)"
proof -
  from footer_hands_frame_to_decoder [OF ld2450_wf_example_before uptime_example_rx
      example_last_byte(1) example_last_byte(3)]
  obtain s' where run: "LD2450ReceiveByte (example_rx 0xCC) example_before = Some s'"
    and a: "log_lines s' \<noteq> log_lines example_before \<longleftrightarrow>
              rcv_idx_body (ld2450_received example_state) = 30 \<and>
              drop 2 (rcv_arr_last (ld2450_received example_state)) = footer_magic"
    and b: "rcv_idx_body (ld2450_received example_state) = 30 \<and>
            drop 2 (rcv_arr_last (ld2450_received example_state)) = footer_magic \<longrightarrow>
              LD2450DataMessage (LocalTime (example_rx 0xCC))
                (example_before\<lparr>ld2450_received := ld2450_received example_state\<rparr>) = Some s' \<and>
              rcv_idx_body (ld2450_received s') = 0"
    by blast
  have c: "rcv_idx_body (ld2450_received example_state) = 30 \<and>
            drop 2 (rcv_arr_last (ld2450_received example_state)) = footer_magic"
    using idx_example_state example_last_byte(4) by simp
  have lt: "LocalTime (example_rx 0xCC) = 1000"
    by (simp add: example_rx_def)
  from a c have "log_lines s' \<noteq> log_lines example_before" by simp
  moreover from b c have "LD2450DataMessage 1000 example_state = Some s' \<and>
              rcv_idx_body (ld2450_received s') = 0"
    by (simp add: example_last_byte(2) lt)
  ultimately have "\<exists>s'. LD2450ReceiveByte (example_rx 0xCC) example_before = Some s' \<and>
      log_lines s' \<noteq> log_lines example_before \<and>
      LD2450DataMessage 1000 example_state = Some s' \<and>
      rcv_idx_body (ld2450_received s') = 0"
    using run by blast
  with ld2450_wf_example_before uptime_example_rx example_last_byte(1,3) show ?thesis
    by blast
qed


lemma example_headerless:
  "headerless (rcv_arr_last (ld2450_received example_state)) (map example_rx [0x55, 0xCC, 0x01])"
  "headerless (rcv_arr_last (ld2450_received example_full)) (map example_rx [0x55, 0xCC, 0x01])"
  by (simp_all add: example_state_def example_full_def example_rx_def header_magic_def
      LD2450_START_DELAY_def)

lemma idx_example_full: "unat (rcv_idx_body (ld2450_received example_full)) = 32"
  by (simp add: example_full_def)

theorem overlong_message_is_dropped_witness:
  "ld2450_wf example_state \<and>
   30 \<le> unat (rcv_idx_body (ld2450_received example_state)) \<and>
   headerless (rcv_arr_last (ld2450_received example_state)) (map example_rx [0x55, 0xCC, 0x01]) \<and>
   (\<exists>s'. LD2450ReceiveLoop (map example_rx [0x55, 0xCC, 0x01]) example_state = Some s' \<and>
      ld2450_target s' = ld2450_target example_state \<and>
      ld2450_status s' = ld2450_status example_state \<and>
      log_lines s' = log_lines example_state) \<and>
   ld2450_wf example_full \<and>
   32 \<le> unat (rcv_idx_body (ld2450_received example_full)) \<and>
   headerless (rcv_arr_last (ld2450_received example_full)) (map example_rx [0x55, 0xCC, 0x01]) \<and>
   (\<exists>s'. LD2450ReceiveLoop (map example_rx [0x55, 0xCC, 0x01]) example_full = Some s' \<and>
      rcv_arr_body (ld2450_received s') = rcv_arr_body (ld2450_received example_full) \<and>
      rcv_idx_body (ld2450_received s') = rcv_idx_body (ld2450_received example_full))"
proof -
  have i30: "30 \<le> unat (rcv_idx_body (ld2450_received example_state))"
    by (simp add: idx_example_state)
  have i32: "32 \<le> unat (rcv_idx_body (ld2450_received example_full))"
    by (simp add: idx_example_full)
  from overlong_message_is_dropped [OF ld2450_wf_example_state,
      of "map example_rx [0x55, 0xCC, 0x01]"] i30 example_headerless(1)
  have a: "\<exists>s'. LD2450ReceiveLoop (map example_rx [0x55, 0xCC, 0x01]) example_state = Some s' \<and>
      ld2450_target s' = ld2450_target example_state \<and>
      ld2450_status s' = ld2450_status example_state \<and>
      log_lines s' = log_lines example_state"
    by blast
  from overlong_message_is_dropped [OF ld2450_wf_example_full,
      of "map example_rx [0x55, 0xCC, 0x01]"] i32 example_headerless(2)
  have b: "\<exists>s'. LD2450ReceiveLoop (map example_rx [0x55, 0xCC, 0x01]) example_full = Some s' \<and>
      rcv_arr_body (ld2450_received s') = rcv_arr_body (ld2450_received example_full) \<and>
      rcv_idx_body (ld2450_received s') = rcv_idx_body (ld2450_received example_full)"
    by blast
  from a b i30 i32 example_headerless ld2450_wf_example_state ld2450_wf_example_full
  show ?thesis by blast
qed

lemma example_completes:
  "\<not> completes_frame (example_rx 0x00) example_idle"
  "completes_frame (example_rx 0xCC) example_before"
proof -
  show "\<not> completes_frame (example_rx 0x00) example_idle"
    by (simp add: completes_frame_def LD2450Append_def arr_read_def arr_write_def example_rx_def
        example_idle_def ld2450_boot_def LD2450_MSG_SIZE_MAX_def LD2450_START_DELAY_def)
  show "completes_frame (example_rx 0xCC) example_before"
    using uptime_example_rx [of "0xCC"] idx_example_state
    by (simp add: completes_frame_def example_last_byte LD2450_START_DELAY_def)
qed

theorem targets_change_only_with_a_frame_witness:
  "ld2450_wf example_idle \<and> \<not> completes_frame (example_rx 0x00) example_idle \<and>
   (\<exists>s'. LD2450ReceiveByte (example_rx 0x00) example_idle = Some s' \<and>
      ld2450_target s' = ld2450_target example_idle \<and>
      ld2450_status s' = ld2450_status example_idle) \<and>
   ld2450_wf example_before \<and> completes_frame (example_rx 0xCC) example_before \<and>
   (\<exists>s' t0 t1 t2. LD2450ReceiveByte (example_rx 0xCC) example_before = Some s' \<and>
      ld2450_target s' = [t0, t1, t2] \<and>
      slot_decoded (ld2450_config example_before) (example_frame @ [0, 0]) 0 t0 \<and>
      slot_decoded (ld2450_config example_before) (example_frame @ [0, 0]) 1 t1 \<and>
      slot_decoded (ld2450_config example_before) (example_frame @ [0, 0]) 2 t2)"
proof -
  from targets_change_only_with_a_frame [OF ld2450_wf_example_idle, of "example_rx 0x00"]
    example_completes(1)
  have a: "\<exists>s'. LD2450ReceiveByte (example_rx 0x00) example_idle = Some s' \<and>
      ld2450_target s' = ld2450_target example_idle \<and>
      ld2450_status s' = ld2450_status example_idle"
    by blast
  have body: "rcv_arr_body (ld2450_received example_state) = example_frame @ [0, 0]"
    by (simp add: example_state_def)
  from targets_change_only_with_a_frame [OF ld2450_wf_example_before, of "example_rx 0xCC"]
    example_completes(2)
  have b: "\<exists>s' t0 t1 t2. LD2450ReceiveByte (example_rx 0xCC) example_before = Some s' \<and>
      ld2450_target s' = [t0, t1, t2] \<and>
      slot_decoded (ld2450_config example_before) (example_frame @ [0, 0]) 0 t0 \<and>
      slot_decoded (ld2450_config example_before) (example_frame @ [0, 0]) 1 t1 \<and>
      slot_decoded (ld2450_config example_before) (example_frame @ [0, 0]) 2 t2"
    by (auto simp: example_last_byte(1) body)
  from a b ld2450_wf_example_idle ld2450_wf_example_before example_completes
  show ?thesis by blast
qed

theorem startup_delay_ignores_bytes_witness:
  "list_all (\<lambda>rx. unat (uptime rx) \<le> LD2450_START_DELAY) (map example_early example_frame) \<and>
   LD2450ReceiveData (map example_early example_frame) example_idle = Some example_idle \<and>
   LD2450ReceiveLoop (map example_early example_frame) example_idle = Some example_idle"
proof -
  have h: "\<forall>rx \<in> set (map example_early example_frame). unat (uptime rx) \<le> LD2450_START_DELAY"
    by (simp add: example_early_def LD2450_START_DELAY_def)
  from startup_delay_ignores_bytes [OF h, of example_idle] h show ?thesis
    by (simp add: list_all_iff)
qed

subsection \<open>The zone classifier at the corners of the zone\<close>

lemma sqrt_trunc_corner: "sqrt_trunc 161290000 = 12700" "sqrt_trunc 72000000 = 8485"
  by (simp_all add: sqrt_trunc.simps)

lemma ld2450_wf_example_inverted: "ld2450_wf example_inverted"
  by (simp add: ld2450_wf_def example_inverted_def LD2450LoadConfig_def Let_def example_idle_def
      ld2450_boot_def example_corner_frame_def LD2450_MSG_SIZE_MAX_def LD2450_TARGET_MAX_def)

lemma example_inverted_received:
  "rcv_idx_body (ld2450_received example_inverted) = 30"
  "rcv_arr_body (ld2450_received example_inverted) = example_corner_frame @ [0, 0]"
  by (simp_all add: example_inverted_def LD2450LoadConfig_def Let_def)

lemma example_inverted_config:
  "sint (cfg_x1 (ld2450_config example_inverted)) = 12700"
  "sint (cfg_x2 (ld2450_config example_inverted)) = 6000"
  "sint (cfg_y1 (ld2450_config example_inverted)) = 0"
  "sint (cfg_y2 (ld2450_config example_inverted)) = 6000"
  by (simp_all add: example_inverted_def LD2450LoadConfig_x1 LD2450LoadConfig_x2
      LD2450LoadConfig_y1 LD2450LoadConfig_y2 example_settings_def Let_def)

lemma example_corner_slot:
  "recovered (le16_signed (example_corner_frame @ [0, 0]) 4) = 12700"
  "recovered (le16_signed (example_corner_frame @ [0, 0]) 6) = 0"
  by (simp_all add: recovered_def le16_signed_def example_corner_frame_def)

lemma ld2450_wf_example_far: "ld2450_wf example_far"
  by (simp add: ld2450_wf_def example_far_def example_idle_def
      ld2450_boot_def example_far_frame_def LD2450_MSG_SIZE_MAX_def LD2450_TARGET_MAX_def)

lemma example_far_received:
  "rcv_idx_body (ld2450_received example_far) = 30"
  "rcv_arr_body (ld2450_received example_far) = example_far_frame @ [0, 0]"
  by (simp_all add: example_far_def)

lemma example_far_config:
  "sint (cfg_x1 (ld2450_config example_far)) = - 6000"
  "sint (cfg_x2 (ld2450_config example_far)) = 6000"
  "sint (cfg_y1 (ld2450_config example_far)) = 0"
  "sint (cfg_y2 (ld2450_config example_far)) = 6000"
  by (simp_all add: example_far_def example_idle_def ld2450_boot_def LD2450_DIST_MAX_def)

lemma example_far_slot:
  "recovered (le16_signed (example_far_frame @ [0, 0]) 4) = 6000"
  "recovered (le16_signed (example_far_frame @ [0, 0]) 6) = - 6000"
  "recovered (le16_signed (example_far_frame @ [0, 0]) 12) = - 6001"
  by (simp_all add: recovered_def le16_signed_def example_far_frame_def)


lemma sint_16_inj: "sint (v :: 16 word) = sint w \<Longrightarrow> v = w"
  by (rule signed_word_eqI)

lemma example_inverted_decode:
  "\<exists>s'. LD2450DataMessage now example_inverted = Some s' \<and>
      ld2450_config s' = ld2450_config example_inverted \<and>
      sint (tgt_x (ld2450_target s' ! 0)) = 12700 \<and>
      sint (tgt_y (ld2450_target s' ! 0)) = 0 \<and>
      unat (tgt_dist (ld2450_target s' ! 0)) = 12700 \<and>
      \<not> tgt_zone (ld2450_target s' ! 0)"
proof -
  have "unat (rcv_idx_body (ld2450_received example_inverted)) \<le> 32"
    by (simp add: example_inverted_received)
  from LD2450DataMessage_fields [OF ld2450_wf_example_inverted this, of now]
  obtain s' t0 t1 t2 where run: "LD2450DataMessage now example_inverted = Some s'"
    and d0: "slot_decoded (ld2450_config example_inverted) (example_corner_frame @ [0, 0]) 0 t0"
    and tg: "ld2450_target s' = [t0, t1, t2]"
    and cfg: "ld2450_config s' = ld2450_config example_inverted"
    unfolding example_inverted_received by blast
  from d0 have x: "sint (tgt_x t0) = 12700" and y: "sint (tgt_y t0) = 0"
    by (simp_all add: slot_decoded_def example_corner_slot)
  from d0 have "tgt_dist t0 = word_of_int (sqrt_trunc (sint (tgt_x t0) * sint (tgt_x t0) +
                                            sint (tgt_y t0) * sint (tgt_y t0)))"
    by (simp add: slot_decoded_def)
  then have d: "tgt_dist t0 = 12700"
    by (simp add: x y sqrt_trunc_corner)
  from d0 have "tgt_zone t0 = in_zone (ld2450_config example_inverted) t0"
    by (simp add: slot_decoded_def)
  then have z: "\<not> tgt_zone t0"
    by (simp add: in_zone_def x y example_inverted_config)
  show ?thesis
    by (rule exI [of _ s']) (simp add: run cfg tg x y d z)
qed

lemma example_far_decode:
  "\<exists>s'. LD2450DataMessage now example_far = Some s' \<and>
      sint (tgt_x (ld2450_target s' ! 0)) = 6000 \<and>
      sint (tgt_y (ld2450_target s' ! 0)) = 6000 \<and>
      unat (tgt_dist (ld2450_target s' ! 0)) = 8485 \<and>
      sint (tgt_x (ld2450_target s' ! 1)) = - 6001"
proof -
  have "unat (rcv_idx_body (ld2450_received example_far)) \<le> 32"
    by (simp add: example_far_received)
  from LD2450DataMessage_fields [OF ld2450_wf_example_far this, of now]
  obtain s' t0 t1 t2 where run: "LD2450DataMessage now example_far = Some s'"
    and d0: "slot_decoded (ld2450_config example_far) (example_far_frame @ [0, 0]) 0 t0"
    and d1: "slot_decoded (ld2450_config example_far) (example_far_frame @ [0, 0]) 1 t1"
    and tg: "ld2450_target s' = [t0, t1, t2]"
    unfolding example_far_received by blast
  from d0 have x: "sint (tgt_x t0) = 6000" and y: "sint (tgt_y t0) = 6000"
    by (simp_all add: slot_decoded_def example_far_slot)
  from d1 have x1: "sint (tgt_x t1) = - 6001"
    by (simp add: slot_decoded_def example_far_slot)
  from d0 have "tgt_dist t0 = word_of_int (sqrt_trunc (sint (tgt_x t0) * sint (tgt_x t0) +
                                            sint (tgt_y t0) * sint (tgt_y t0)))"
    by (simp add: slot_decoded_def)
  then have d: "tgt_dist t0 = 8485"
    by (simp add: x y sqrt_trunc_corner)
  show ?thesis
    by (rule exI [of _ s']) (simp add: run tg x y x1 d)
qed

text \<open>
  The theorem of claim C5 at the example frames. In the first one the first target is in the
  default zone and the empty slots are not. In the second one the first target lies exactly
  at \<open>(x2, y2) = (6000, 6000)\<close> and is in the zone, and the second target has
  \<open>x = x1 - 1 = -6001\<close> and is not.
\<close>

theorem zone_classifier_closed_rectangle_witness:
  "ld2450_wf example_state \<and> rcv_idx_body (ld2450_received example_state) = 30 \<and>
   (\<exists>s'. LD2450DataMessage 1000 example_state = Some s' \<and>
      map tgt_zone (ld2450_target s') = [True, False, False] \<and>
      unat (sts_counter (ld2450_status s')) = length (filter tgt_zone (ld2450_target s')) \<and>
      length (filter tgt_zone (ld2450_target s')) = 1) \<and>
   ld2450_wf example_far \<and> rcv_idx_body (ld2450_received example_far) = 30 \<and>
   sint (cfg_x1 (ld2450_config example_far)) \<le> sint (cfg_x2 (ld2450_config example_far)) \<and>
   sint (cfg_y1 (ld2450_config example_far)) \<le> sint (cfg_y2 (ld2450_config example_far)) \<and>
   (\<exists>s'. LD2450DataMessage 1000 example_far = Some s' \<and>
      0 < unat (tgt_dist (ld2450_target s' ! 0)) \<and>
      tgt_x (ld2450_target s' ! 0) = cfg_x2 (ld2450_config example_far) \<and>
      tgt_y (ld2450_target s' ! 0) = cfg_y2 (ld2450_config example_far) \<and>
      tgt_zone (ld2450_target s' ! 0) \<and>
      sint (tgt_x (ld2450_target s' ! 1)) = sint (cfg_x1 (ld2450_config example_far)) - 1 \<and>
      \<not> tgt_zone (ld2450_target s' ! 1))"
proof -
  from zone_classifier_closed_rectangle [OF ld2450_wf_example_state idx_example_state, of 1000]
  obtain s' where run: "LD2450DataMessage 1000 example_state = Some s'"
    and cnt: "unat (sts_counter (ld2450_status s')) = length (filter tgt_zone (ld2450_target s'))"
    by blast
  from example_decode [of 1000] run
  have "map (\<lambda>t. (sint (tgt_x t), sint (tgt_y t), sint (tgt_speed t), unat (tgt_dist t), tgt_zone t))
        (ld2450_target s') = [(50, 30, 16, 58, True), (0, 0, 0, 0, False), (0, 0, 0, 0, False)]"
    by simp
  then have flags: "map tgt_zone (ld2450_target s') = [True, False, False]"
    by (auto simp: map_eq_Cons_conv)
  then have one: "length (filter tgt_zone (ld2450_target s')) = 1"
    by (auto simp: map_eq_Cons_conv)
  have a: "\<exists>s'. LD2450DataMessage 1000 example_state = Some s' \<and>
      map tgt_zone (ld2450_target s') = [True, False, False] \<and>
      unat (sts_counter (ld2450_status s')) = length (filter tgt_zone (ld2450_target s')) \<and>
      length (filter tgt_zone (ld2450_target s')) = 1"
    by (rule exI [of _ s']) (simp add: run cnt flags one)
  have ord: "sint (cfg_x1 (ld2450_config example_far)) \<le> sint (cfg_x2 (ld2450_config example_far))"
    "sint (cfg_y1 (ld2450_config example_far)) \<le> sint (cfg_y2 (ld2450_config example_far))"
    by (simp_all add: example_far_config)
  from zone_classifier_closed_rectangle [OF ld2450_wf_example_far example_far_received(1), of 1000]
  obtain u where runf: "LD2450DataMessage 1000 example_far = Some u"
    and corner: "\<forall>i<3. unat (tgt_dist (ld2450_target u ! i)) > 0 \<longrightarrow>
                    sint (cfg_x1 (ld2450_config example_far)) \<le> sint (cfg_x2 (ld2450_config example_far)) \<longrightarrow>
                    sint (cfg_y1 (ld2450_config example_far)) \<le> sint (cfg_y2 (ld2450_config example_far)) \<longrightarrow>
                    (tgt_x (ld2450_target u ! i) = cfg_x1 (ld2450_config example_far) \<and>
                     tgt_y (ld2450_target u ! i) = cfg_y1 (ld2450_config example_far) \<or>
                     tgt_x (ld2450_target u ! i) = cfg_x2 (ld2450_config example_far) \<and>
                     tgt_y (ld2450_target u ! i) = cfg_y2 (ld2450_config example_far)) \<longrightarrow>
                    tgt_zone (ld2450_target u ! i)"
    and below: "\<forall>i<3. sint (tgt_x (ld2450_target u ! i)) = sint (cfg_x1 (ld2450_config example_far)) - 1 \<longrightarrow>
                    \<not> tgt_zone (ld2450_target u ! i)"
    by blast
  from example_far_decode [of 1000] obtain u' where
    runf': "LD2450DataMessage 1000 example_far = Some u'" and
    x': "sint (tgt_x (ld2450_target u' ! 0)) = 6000" and
    y': "sint (tgt_y (ld2450_target u' ! 0)) = 6000" and
    d': "unat (tgt_dist (ld2450_target u' ! 0)) = 8485" and
    x1': "sint (tgt_x (ld2450_target u' ! 1)) = - 6001"
    by blast
  from runf runf' have same: "u' = u" by simp
  note x = x' [unfolded same] and y = y' [unfolded same] and d = d' [unfolded same]
    and x1 = x1' [unfolded same]
  have ex: "tgt_x (ld2450_target u ! 0) = cfg_x2 (ld2450_config example_far)"
    by (rule sint_16_inj) (simp add: x example_far_config)
  have ey: "tgt_y (ld2450_target u ! 0) = cfg_y2 (ld2450_config example_far)"
    by (rule sint_16_inj) (simp add: y example_far_config)
  have dp: "0 < unat (tgt_dist (ld2450_target u ! 0))"
    by (simp add: d)
  have "(0::nat) < 3" by simp
  with corner dp ord ex ey have z0: "tgt_zone (ld2450_target u ! 0)"
    by blast
  have bx: "sint (tgt_x (ld2450_target u ! 1)) = sint (cfg_x1 (ld2450_config example_far)) - 1"
    by (simp only: x1 example_far_config)
  have "(1::nat) < 3" by simp
  with below bx have z1: "\<not> tgt_zone (ld2450_target u ! 1)"
    by blast
  have b: "\<exists>s'. LD2450DataMessage 1000 example_far = Some s' \<and>
      0 < unat (tgt_dist (ld2450_target s' ! 0)) \<and>
      tgt_x (ld2450_target s' ! 0) = cfg_x2 (ld2450_config example_far) \<and>
      tgt_y (ld2450_target s' ! 0) = cfg_y2 (ld2450_config example_far) \<and>
      tgt_zone (ld2450_target s' ! 0) \<and>
      sint (tgt_x (ld2450_target s' ! 1)) = sint (cfg_x1 (ld2450_config example_far)) - 1 \<and>
      \<not> tgt_zone (ld2450_target s' ! 1)"
    using runf dp ex ey z0 bx z1 by (intro exI [of _ u] conjI)
  from a b ord ld2450_wf_example_state idx_example_state ld2450_wf_example_far
    example_far_received(1)
  show ?thesis by (intro conjI)
qed

text \<open>
  Claim C5 as it is stated, with the corner clause for every configuration, fails where the
  zone is not a rectangle. The driver that has loaded \<open>example_settings\<close> has the zone
  \<open>x1 = 12700\<close>, \<open>x2 = 6000\<close>, \<open>y1 = 0\<close>, \<open>y2 = 6000\<close>; the first target of the decoded
  frame lies exactly at \<open>(x1, y1) = (12700, 0)\<close>, its distance is 12700, and its zone flag is
  not set, since \<open>x \<le> x2\<close> fails.
\<close>

theorem zone_classifier_corner_counterexample:
  "LD2450DataMessage 1000 example_inverted \<noteq> None \<and>
   tgt_x (ld2450_target (the (LD2450DataMessage 1000 example_inverted)) ! 0)
     = cfg_x1 (ld2450_config example_inverted) \<and>
   tgt_y (ld2450_target (the (LD2450DataMessage 1000 example_inverted)) ! 0)
     = cfg_y1 (ld2450_config example_inverted) \<and>
   0 < unat (tgt_dist (ld2450_target (the (LD2450DataMessage 1000 example_inverted)) ! 0)) \<and>
   \<not> tgt_zone (ld2450_target (the (LD2450DataMessage 1000 example_inverted)) ! 0) \<and>
   sint (cfg_x1 (ld2450_config example_inverted)) = 12700 \<and>
   sint (cfg_x2 (ld2450_config example_inverted)) = 6000"
proof -
  from example_inverted_decode [of 1000] obtain s' where
    run: "LD2450DataMessage 1000 example_inverted = Some s'"
    and x: "sint (tgt_x (ld2450_target s' ! 0)) = 12700"
    and y: "sint (tgt_y (ld2450_target s' ! 0)) = 0"
    and d: "unat (tgt_dist (ld2450_target s' ! 0)) = 12700"
    and z: "\<not> tgt_zone (ld2450_target s' ! 0)"
    by blast
  have ex: "tgt_x (ld2450_target s' ! 0) = cfg_x1 (ld2450_config example_inverted)"
    by (rule sint_16_inj) (simp add: x example_inverted_config)
  have ey: "tgt_y (ld2450_target s' ! 0) = cfg_y1 (ld2450_config example_inverted)"
    by (rule sint_16_inj) (simp add: y example_inverted_config)
  show ?thesis
    by (simp add: run ex ey d z example_inverted_config)
qed

end
